theory Spec2Isabelle
  imports Main "HOL-Library.Sublist" "HOL-Library.AList"
begin

section \<open>Python values used by the scripts\<close>

text \<open>
  The six scripts under \<^verbatim>\<open>src/tools\<close> are modelled over byte strings. Exceptions are
  values of \<open>exn\<close>; \<open>SystemExit\<close> is the exception \<^verbatim>\<open>sys.exit\<close> raises.
\<close>

datatype exn =
    ValueError string
  | KeyError string
  | RuntimeError string
  | AttributeError string
  | FileNotFoundError
  | FileExistsError
  | NotADirectoryError
  | IsADirectoryError
  | CalledProcessError nat
  | OSError string
  | SystemExit nat

text \<open>\<^verbatim>\<open>str.lower\<close> on ASCII: the letters A to Z move to a to z, every other byte stays.\<close>

definition lower_char :: "char \<Rightarrow> char" where
  "lower_char c =
     (let k = (of_char c :: nat) in if 65 \<le> k \<and> k \<le> 90 then char_of (k + 32) else c)"

definition lower :: "string \<Rightarrow> string" where
  "lower s = map lower_char s"

text \<open>\<^verbatim>\<open>sub in s\<close> and \<^verbatim>\<open>s.endswith(suf)\<close>.\<close>

definition str_in :: "string \<Rightarrow> string \<Rightarrow> bool" where
  "str_in sub s = sublist sub s"

definition endswith :: "string \<Rightarrow> string \<Rightarrow> bool" where
  "endswith s suf = suffix suf s"

lemma dropWhile_rest_shorter:
  "dropWhile P cs = x # rest \<Longrightarrow> length rest < length cs"
  using length_dropWhile_le [of P cs] by simp

text \<open>
  \<^verbatim>\<open>template.format(**kw)\<close> for templates whose replacement fields are plain names:
  \<^verbatim>\<open>{{\<close> and \<^verbatim>\<open>}}\<close> are the escaped braces, \<^verbatim>\<open>{name}\<close> is replaced by the keyword
  argument of that name (a missing one raises \<^verbatim>\<open>KeyError\<close>), an unmatched brace raises
  \<^verbatim>\<open>ValueError\<close>. The substituted value is copied as it is and never parsed again.
\<close>

function format_py :: "(string \<times> string) list \<Rightarrow> string \<Rightarrow> exn + string" where
  "format_py kw [] = Inr []"
| "format_py kw (c # cs) =
     (if c = CHR ''{'' then
        (case cs of
           d # r \<Rightarrow>
             if d = CHR ''{'' then map_sum id ((#) CHR ''{'') (format_py kw r)
             else
               (case dropWhile (\<lambda>x. x \<noteq> CHR ''}'') cs of
                  [] \<Rightarrow> Inl (ValueError ''expected } before end of string'')
                | _ # rest \<Rightarrow>
                    (case map_of kw (takeWhile (\<lambda>x. x \<noteq> CHR ''}'') cs) of
                       None \<Rightarrow> Inl (KeyError (takeWhile (\<lambda>x. x \<noteq> CHR ''}'') cs))
                     | Some v \<Rightarrow> map_sum id ((@) v) (format_py kw rest)))
         | [] \<Rightarrow> Inl (ValueError ''Single { encountered in format string''))
      else if c = CHR ''}'' then
        (case cs of
           d # r \<Rightarrow>
             if d = CHR ''}'' then map_sum id ((#) CHR ''}'') (format_py kw r)
             else Inl (ValueError ''Single } encountered in format string'')
         | [] \<Rightarrow> Inl (ValueError ''Single } encountered in format string''))
      else map_sum id ((#) c) (format_py kw cs))"
  by pat_completeness auto
termination
  by (relation "measure (\<lambda>(kw, s). length s)")
     (auto simp del: dropWhile.simps takeWhile.simps dest!: dropWhile_rest_shorter)

section \<open>Downloaders: \<^verbatim>\<open>get_fmod_api.py\<close> and \<^verbatim>\<open>get_raylib.py\<close>\<close>

text \<open>
  \<^verbatim>\<open>PLATFORM_CONFIG\<close> of each downloader, in the order of the source; only the
  \<^verbatim>\<open>filename\<close> and \<^verbatim>\<open>path\<close> entries exist there.
\<close>

record dl_profile =
  filename :: string
  url_path :: string

definition get_fmod_PLATFORM_CONFIG :: "(string \<times> dl_profile) list" where
  "get_fmod_PLATFORM_CONFIG =
     [(''mac'', \<lparr>filename = ''fmodstudioapi{version}mac-installer.dmg'',
                 url_path = ''files/fmodstudio/api/Mac/''\<rparr>),
      (''linux'', \<lparr>filename = ''fmodstudioapi{version}linux.tar.gz'',
                   url_path = ''files/fmodstudio/api/Linux/''\<rparr>),
      (''windows'', \<lparr>filename = ''fmodstudioapi{version}win-installer.exe'',
                     url_path = ''files/fmodstudio/api/Windows/''\<rparr>)]"

definition get_raylib_PLATFORM_CONFIG :: "(string \<times> dl_profile) list" where
  "get_raylib_PLATFORM_CONFIG =
     [(''mac'', \<lparr>filename = ''raylib-{version}_macos.tar.gz'', url_path = ''''\<rparr>),
      (''linux'', \<lparr>filename = ''raylib-{version}_linux_amd64.tar.gz'', url_path = ''''\<rparr>),
      (''windows'', \<lparr>filename = ''raylib-{version}_win64_msvc16.zip'', url_path = ''''\<rparr>)]"

text \<open>
  The file name a downloader's \<^verbatim>\<open>main\<close> computes: the platform is validated against the
  table (an unknown one prints the supported platforms and exits with status 1), then the
  version is substituted into the profile's template.
\<close>

definition dl_filename :: "(string \<times> dl_profile) list \<Rightarrow> string \<Rightarrow> string \<Rightarrow> exn + string" where
  "dl_filename table platform version =
     (case map_of table platform of
        None \<Rightarrow> Inl (SystemExit 1)
      | Some config \<Rightarrow> format_py [(''version'', version)] (filename config))"

definition get_fmod_filename :: "string \<Rightarrow> string \<Rightarrow> exn + string" where
  "get_fmod_filename platform api_version =
     dl_filename get_fmod_PLATFORM_CONFIG platform api_version"

definition get_raylib_filename :: "string \<Rightarrow> string \<Rightarrow> exn + string" where
  "get_raylib_filename platform raylib_version =
     dl_filename get_raylib_PLATFORM_CONFIG platform raylib_version"

section \<open>Orchestrators: \<^verbatim>\<open>setup_fmod_api.py\<close> and \<^verbatim>\<open>setup_raylib.py\<close>\<close>

text \<open>
  The \<^verbatim>\<open>installer_patterns\<close> dictionary each orchestrator builds with f-strings, and the
  lookup that follows: \<^verbatim>\<open>.get(platform)\<close>, then \<^verbatim>\<open>ValueError\<close> when the result is
  \<^verbatim>\<open>None\<close> or empty.
\<close>

definition setup_fmod_installer_patterns :: "string \<Rightarrow> (string \<times> string) list" where
  "setup_fmod_installer_patterns api_version =
     [(''windows'', ''fmodstudioapi'' @ api_version @ ''win-installer.exe''),
      (''linux'', ''fmodstudioapi'' @ api_version @ ''linux.tar.gz''),
      (''apple'', ''fmodstudioapi'' @ api_version @ ''mac-installer.dmg'')]"

definition setup_raylib_installer_patterns :: "string \<Rightarrow> (string \<times> string) list" where
  "setup_raylib_installer_patterns raylib_version =
     [(''mac'', ''raylib-'' @ raylib_version @ ''_macos.tar.gz''),
      (''linux'', ''raylib-'' @ raylib_version @ ''_linux_amd64.tar.gz''),
      (''windows'', ''raylib-'' @ raylib_version @ ''_win64_msvc16.zip'')]"

definition installer_name_of :: "(string \<times> string) list \<Rightarrow> string \<Rightarrow> exn + string" where
  "installer_name_of installer_patterns platform =
     (case map_of installer_patterns platform of
        None \<Rightarrow> Inl (ValueError (''Unknown platform: '' @ platform))
      | Some installer_name \<Rightarrow>
          if installer_name = [] then Inl (ValueError (''Unknown platform: '' @ platform))
          else Inr installer_name)"

definition setup_fmod_installer_name :: "string \<Rightarrow> string \<Rightarrow> exn + string" where
  "setup_fmod_installer_name platform api_version =
     installer_name_of (setup_fmod_installer_patterns api_version) platform"

definition setup_raylib_installer_name :: "string \<Rightarrow> string \<Rightarrow> exn + string" where
  "setup_raylib_installer_name platform raylib_version =
     installer_name_of (setup_raylib_installer_patterns raylib_version) platform"

section \<open>Installers: platform detection\<close>

text \<open>
  \<^verbatim>\<open>detect_platform\<close> of \<^verbatim>\<open>install_fmod_api.py\<close> and of \<^verbatim>\<open>install_raylib.py\<close>. The
  argument is \<^verbatim>\<open>installer_path.name\<close>, the last component of the path.
\<close>

definition fmod_detect_platform :: "string \<Rightarrow> exn + string" where
  "fmod_detect_platform path_name =
     (let name = lower path_name in
      if str_in ''win'' name \<and> endswith name ''.exe'' then Inr ''windows''
      else if str_in ''linux'' name \<and> endswith name ''.tar.gz'' then Inr ''linux''
      else if str_in ''mac'' name \<and> endswith name ''.dmg'' then Inr ''mac''
      else Inl (ValueError (''Cannot detect platform from installer: '' @ path_name)))"

definition raylib_detect_platform :: "string \<Rightarrow> exn + string" where
  "raylib_detect_platform path_name =
     (let name = lower path_name in
      if str_in ''win'' name \<and> endswith name ''.zip'' then Inr ''windows''
      else if str_in ''linux'' name \<and> endswith name ''.tar.gz'' then Inr ''linux''
      else if str_in ''macos'' name \<and> endswith name ''.tar.gz'' then Inr ''mac''
      else Inl (ValueError (''Cannot detect platform from installer: '' @ path_name)))"

section \<open>The file system\<close>

text \<open>
  A path is the list of its components below the root. The file system is a tree; the
  entries of a directory are kept in listing order (the order \<^verbatim>\<open>os.scandir\<close> reports).
  Symbolic links, permissions and file contents are not modelled.
\<close>

type_synonym path = "string list"

datatype node = File | Dir "(string \<times> node) list"

fun lookup :: "node \<Rightarrow> path \<Rightarrow> node option" where
  "lookup n [] = Some n"
| "lookup File (c # cs) = None"
| "lookup (Dir es) (c # cs) = (case map_of es c of None \<Rightarrow> None | Some m \<Rightarrow> lookup m cs)"

text \<open>\<^verbatim>\<open>Path.exists\<close>, \<^verbatim>\<open>Path.is_file\<close>, \<^verbatim>\<open>Path.is_dir\<close>.\<close>

definition exists_path :: "node \<Rightarrow> path \<Rightarrow> bool" where
  "exists_path n p = (lookup n p \<noteq> None)"

definition is_file :: "node \<Rightarrow> path \<Rightarrow> bool" where
  "is_file n p = (lookup n p = Some File)"

definition is_dir :: "node \<Rightarrow> path \<Rightarrow> bool" where
  "is_dir n p = (case lookup n p of Some (Dir es) \<Rightarrow> True | _ \<Rightarrow> False)"

text \<open>\<^verbatim>\<open>Path.parent\<close> and \<^verbatim>\<open>Path.name\<close>; the root is its own parent and has the empty name.\<close>

definition parent :: "path \<Rightarrow> path" where
  "parent p = butlast p"

definition name_of :: "path \<Rightarrow> string" where
  "name_of p = (case rev p of [] \<Rightarrow> [] | c # _ \<Rightarrow> c)"

text \<open>
  The components of a path written as a string: split at \<^verbatim>\<open>/\<close>, empty components and
  \<^verbatim>\<open>.\<close> dropped as \<^verbatim>\<open>pathlib\<close> does. A component \<^verbatim>\<open>..\<close> is kept as a name.
\<close>

fun split_slash :: "string \<Rightarrow> string list" where
  "split_slash [] = [[]]"
| "split_slash (c # cs) =
     (if c = CHR ''/'' then [] # split_slash cs
      else (case split_slash cs of w # ws \<Rightarrow> (c # w) # ws | [] \<Rightarrow> [[c]]))"

definition parts :: "string \<Rightarrow> path" where
  "parts s = filter (\<lambda>w. w \<noteq> [] \<and> w \<noteq> ''.'') (split_slash s)"

text \<open>\<^verbatim>\<open>p / s\<close> for a path \<open>p\<close> and a string \<open>s\<close>: an absolute \<open>s\<close> replaces \<open>p\<close>.\<close>

definition pjoin :: "path \<Rightarrow> string \<Rightarrow> path" where
  "pjoin p s = (if take 1 s = ''/'' then [] else p) @ parts s"

text \<open>The entry at a path is taken out of the tree; the root cannot be taken out.\<close>

fun remove :: "path \<Rightarrow> node \<Rightarrow> node" where
  "remove [] n = n"
| "remove (c # cs) File = File"
| "remove [c] (Dir es) = Dir (AList.delete c es)"
| "remove (c # cs) (Dir es) = Dir (AList.map_entry c (remove cs) es)"

text \<open>
  \<^verbatim>\<open>Path.mkdir(parents=True, exist_ok=True)\<close>: missing directories are created along
  the path, an existing directory is accepted, a file on the way raises.
\<close>

fun makedirs :: "path \<Rightarrow> node \<Rightarrow> exn + node" where
  "makedirs [] (Dir es) = Inr (Dir es)"
| "makedirs [] File = Inl FileExistsError"
| "makedirs (c # cs) File = Inl NotADirectoryError"
| "makedirs (c # cs) (Dir es) =
     (case map_of es c of
        None \<Rightarrow>
          (case makedirs cs (Dir []) of
             Inl x \<Rightarrow> Inl x
           | Inr m \<Rightarrow> Inr (Dir (es @ [(c, m)])))
      | Some m \<Rightarrow>
          (case makedirs cs m of
             Inl x \<Rightarrow> Inl x
           | Inr m' \<Rightarrow> Inr (Dir (AList.update c m' es))))"

text \<open>
  \<^verbatim>\<open>os.mkdir\<close> and \<^verbatim>\<open>Path.mkdir(exist_ok=...)\<close> without \<^verbatim>\<open>parents\<close>: the parent has to
  be a directory, and the path itself must be new (or, with \<^verbatim>\<open>exist_ok\<close>, a directory).
\<close>

definition mkdir :: "path \<Rightarrow> bool \<Rightarrow> node \<Rightarrow> exn option \<times> node" where
  "mkdir p exist_ok n =
     (case lookup n p of
        Some (Dir es) \<Rightarrow> (if exist_ok then None else Some FileExistsError, n)
      | Some File \<Rightarrow> (Some FileExistsError, n)
      | None \<Rightarrow>
          (case lookup n (parent p) of
             None \<Rightarrow> (Some FileNotFoundError, n)
           | Some File \<Rightarrow> (Some NotADirectoryError, n)
           | Some (Dir es) \<Rightarrow>
               (case makedirs p n of Inl x \<Rightarrow> (Some x, n) | Inr n' \<Rightarrow> (None, n'))))"

text \<open>\<^verbatim>\<open>Path.unlink\<close>.\<close>

definition unlink :: "path \<Rightarrow> node \<Rightarrow> exn option \<times> node" where
  "unlink p n =
     (case lookup n p of
        None \<Rightarrow> (Some FileNotFoundError, n)
      | Some (Dir es) \<Rightarrow> (Some IsADirectoryError, n)
      | Some File \<Rightarrow> (None, remove p n))"

text \<open>\<^verbatim>\<open>Path.iterdir\<close> (the names, in listing order) and \<^verbatim>\<open>Path.glob('*')\<close>.\<close>

definition iterdir :: "node \<Rightarrow> path \<Rightarrow> exn + string list" where
  "iterdir n p =
     (case lookup n p of
        None \<Rightarrow> Inl FileNotFoundError
      | Some File \<Rightarrow> Inl NotADirectoryError
      | Some (Dir es) \<Rightarrow> Inr (map fst es))"

definition glob_star :: "node \<Rightarrow> path \<Rightarrow> path list" where
  "glob_star n p =
     (case lookup n p of Some (Dir es) \<Rightarrow> map (\<lambda>(k, m). p @ [k]) es | _ \<Rightarrow> [])"

text \<open>
  \<^verbatim>\<open>Path.rglob(name)\<close> for a pattern without wildcards: every directory of the subtree is
  visited in pre-order, the start first, and yields its entry of that name, file or
  directory, when it has one. \<open>subdirs\<close> lists the visited directories relative to the
  start.
\<close>

fun subdirs :: "node \<Rightarrow> path list" where
  "subdirs File = []"
| "subdirs (Dir es) = [] # concat (map (\<lambda>(k, m). map ((#) k) (subdirs m)) es)"

definition rglob :: "node \<Rightarrow> path \<Rightarrow> string \<Rightarrow> path list" where
  "rglob n p name =
     (case lookup n p of
        None \<Rightarrow> []
      | Some d \<Rightarrow> filter (exists_path n) (map (\<lambda>q. p @ q @ [name]) (subdirs d)))"

text \<open>
  \<^verbatim>\<open>tempfile.mkdtemp(prefix=...)\<close>: candidate names are tried in the order the random
  generator gives them; a name that exists already is skipped, any other failure is
  raised, and running out of candidates raises \<^verbatim>\<open>FileExistsError\<close>.
\<close>

fun mkdtemp :: "path \<Rightarrow> string \<Rightarrow> string list \<Rightarrow> node \<Rightarrow> (exn + path) \<times> node" where
  "mkdtemp dir pre [] n = (Inl FileExistsError, n)"
| "mkdtemp dir pre (r # rs) n =
     (case mkdir (dir @ [pre @ r]) False n of
        (None, n') \<Rightarrow> (Inr (dir @ [pre @ r]), n')
      | (Some x, n') \<Rightarrow> if x = FileExistsError then mkdtemp dir pre rs n else (Inl x, n))"

section \<open>The environment and the state of a run\<close>

text \<open>
  What the scripts reach through \<^verbatim>\<open>subprocess\<close> and \<^verbatim>\<open>shutil\<close> is the environment's:
  the external programs (7-Zip, hdiutil), \<^verbatim>\<open>shutil.unpack_archive\<close>,
  \<^verbatim>\<open>shutil.copytree(..., dirs_exist_ok=True)\<close> and \<^verbatim>\<open>shutil.copy2\<close>. Each takes the
  file system and returns the exception it raised, if any, with the file system it left.
  Whether \<^verbatim>\<open>shutil.rmtree\<close> gets through a directory is the environment's as well.
\<close>

datatype cmd =
    SevenZipExtract string path path
  | HdiutilAttach path path
  | HdiutilDetach path

datatype outcome = Exited nat | NotFound | SpawnFailed string

record env =
  project_root :: path
  cwd :: path
  tempdir :: path
  random_names :: "string list"
  spawn :: "cmd \<Rightarrow> node \<Rightarrow> outcome \<times> node"
  unpack_archive :: "path \<Rightarrow> path \<Rightarrow> node \<Rightarrow> exn option \<times> node"
  copytree :: "path \<Rightarrow> path \<Rightarrow> node \<Rightarrow> exn option \<times> node"
  copy2 :: "path \<Rightarrow> path \<Rightarrow> node \<Rightarrow> exn option \<times> node"
  rmtree_failure :: "path \<Rightarrow> node \<Rightarrow> (exn \<times> path list) option"

text \<open>
  \<^verbatim>\<open>shutil.rmtree(p, ignore_errors=False)\<close>. A missing path and a file raise. On a
  directory the removal can get stuck on an entry that cannot be deleted (a file in use, a
  mounted image, a missing permission): the environment says so through
  \<open>rmtree_failure\<close>, which gives the exception raised and the entries below \<open>p\<close>,
  relative to \<open>p\<close>, that had been removed by then; the directory itself is left. Otherwise
  the whole tree is taken out.
\<close>

definition rmtree :: "env \<Rightarrow> path \<Rightarrow> node \<Rightarrow> exn option \<times> node" where
  "rmtree e p n =
     (case lookup n p of
        None \<Rightarrow> (Some FileNotFoundError, n)
      | Some File \<Rightarrow> (Some NotADirectoryError, n)
      | Some (Dir es) \<Rightarrow>
          (case rmtree_failure e p n of
             None \<Rightarrow> (None, remove p n)
           | Some (x, removed) \<Rightarrow>
               (Some x, fold (\<lambda>q. remove (p @ q)) (filter (\<lambda>q. q \<noteq> []) removed) n)))"

text \<open>One constructor for each message the installers print.\<close>

datatype msg =
    Usage
  | InstallerNotFound string
  | Banner
  | InstallerFound string
  | PlatformMsg string
  | ErrorMsg exn
  | TempDirectory path
  | Extracting string
  | Extracted string
  | Copying
  | Copied string nat
  | NotFoundWarning string
  | NoPluginsConfigured
  | CopyingPlugins nat
  | PluginCopied string
  | PluginMissing string string
  | PluginsCopied nat nat
  | InstallationComplete
  | DeletingInstaller
  | Deleted string
  | CleaningUp
  | TempRemoved

text \<open>
  The state of a run: the file system, the messages printed so far, and the external
  commands started so far with the outcome of each.
\<close>

record state =
  fs :: node
  out :: "msg list"
  procs :: "(cmd \<times> outcome) list"

datatype exit = Exit nat | Uncaught exn

type_synonym step = "state \<Rightarrow> exn option \<times> state"

definition skip :: step where
  "skip s = (None, s)"

definition say :: "msg \<Rightarrow> step" where
  "say m s = (None, s\<lparr>out := out s @ [m]\<rparr>)"

definition raise :: "exn \<Rightarrow> step" where
  "raise x s = (Some x, s)"

definition seq :: "step \<Rightarrow> step \<Rightarrow> step" where
  "seq f g s = (case f s of (None, s1) \<Rightarrow> g s1 | (Some x, s1) \<Rightarrow> (Some x, s1))"

text \<open>\<^verbatim>\<open>try: f finally: g\<close>: an exception of \<open>g\<close> replaces the one of \<open>f\<close>.\<close>

definition try_finally :: "step \<Rightarrow> step \<Rightarrow> step" where
  "try_finally f g s =
     (case f s of (r, s1) \<Rightarrow> (case g s1 of (None, s2) \<Rightarrow> (r, s2) | (Some y, s2) \<Rightarrow> (Some y, s2)))"

definition on_fs :: "(node \<Rightarrow> exn option \<times> node) \<Rightarrow> step" where
  "on_fs f s = (case f (fs s) of (r, n) \<Rightarrow> (r, s\<lparr>fs := n\<rparr>))"

text \<open>
  \<^verbatim>\<open>subprocess.run(cmd, check=...)\<close>: a missing executable raises
  \<^verbatim>\<open>FileNotFoundError\<close>, another failure to start raises \<^verbatim>\<open>OSError\<close>, and with
  \<^verbatim>\<open>check=True\<close> a non-zero exit status raises \<^verbatim>\<open>CalledProcessError\<close>.
\<close>

definition subprocess_run :: "env \<Rightarrow> cmd \<Rightarrow> bool \<Rightarrow> step" where
  "subprocess_run e c check s =
     (case spawn e c (fs s) of
        (oc, n) \<Rightarrow>
          ((case oc of
              Exited rc \<Rightarrow> if check \<and> rc \<noteq> 0 then Some (CalledProcessError rc) else None
            | NotFound \<Rightarrow> Some FileNotFoundError
            | SpawnFailed m \<Rightarrow> Some (OSError m)),
           s\<lparr>fs := n, procs := procs s @ [(c, oc)]\<rparr>))"

section \<open>The audio SDK installer: \<^verbatim>\<open>install_fmod_api.py\<close>\<close>

text \<open>
  \<^verbatim>\<open>PLATFORM_CONFIG\<close>. The value under \<^verbatim>\<open>plugins\<close> is a set of strings in the source (its
  elements are listed here in the order they are written) and may be a single string, the
  old format \<^verbatim>\<open>copy_plugins\<close> still accepts.
\<close>

datatype plugins_cfg = PluginDir string | PluginSet "string list"

record fmod_api_structure =
  core_inc_dir :: string
  core_lib_dir :: string
  studio_inc_dir :: string
  studio_lib_dir :: string
  plugins :: "plugins_cfg option"

record fmod_config =
  fmod_lib_subdir :: string
  fmod_api_structure :: fmod_api_structure

definition fmod_PLATFORM_CONFIG :: "(string \<times> fmod_config) list" where
  "fmod_PLATFORM_CONFIG =
     [(''windows'',
       \<lparr>fmod_lib_subdir = ''win_x64'',
        fmod_api_structure =
          \<lparr>core_inc_dir = ''api/core/inc'',
           core_lib_dir = ''api/core/lib/x64'',
           studio_inc_dir = ''api/studio/inc'',
           studio_lib_dir = ''api/studio/lib/x64'',
           plugins = Some (PluginSet
             [''plugins/fmod_haptics/lib/x64/fmod_haptics.dll'',
              ''plugins/resonance_audio/lib/x64/resonanceaudio.dll''])\<rparr>\<rparr>),
      (''linux'',
       \<lparr>fmod_lib_subdir = ''linux_x64'',
        fmod_api_structure =
          \<lparr>core_inc_dir = ''api/core/inc'',
           core_lib_dir = ''api/core/lib/x86_64'',
           studio_inc_dir = ''api/studio/inc'',
           studio_lib_dir = ''api/studio/lib/x86_64'',
           plugins = Some (PluginSet
             [''plugins/resonance_audio/lib/resonanceaudio.so''])\<rparr>\<rparr>),
      (''mac'',
       \<lparr>fmod_lib_subdir = ''mac'',
        fmod_api_structure =
          \<lparr>core_inc_dir = ''api/core/inc'',
           core_lib_dir = ''api/core/lib'',
           studio_inc_dir = ''api/studio/inc'',
           studio_lib_dir = ''api/studio/lib'',
           plugins = Some (PluginSet
             [''plugins/fmod_haptics/lib/fmod_haptics.dylib'',
              ''plugins/resonance_audio/lib/resonanceaudio.dylib''])\<rparr>\<rparr>)]"

definition FMOD_LIB_DIR :: "env \<Rightarrow> path" where
  "FMOD_LIB_DIR e = project_root e @ [''libs'', ''fmod'']"

text \<open>\<^verbatim>\<open>extract_windows_exe\<close>: the candidate 7-Zip programs, the loop over them, the error.\<close>

definition backslash :: string where
  "backslash = [CHR 0x5C]"

definition seven_zip_paths :: "string list" where
  "seven_zip_paths =
     [''7z'',
      ''C:'' @ backslash @ ''Program Files'' @ backslash @ ''7-Zip'' @ backslash @ ''7z.exe'',
      ''C:'' @ backslash @ ''Program Files (x86)'' @ backslash @ ''7-Zip'' @ backslash
        @ ''7z.exe'']"

definition newline :: string where
  "newline = [CHR 0x0A]"

definition seven_zip_help :: string where
  "seven_zip_help =
     ''Cannot extract Windows installer. Please install 7-Zip:'' @ newline @
     ''  1. Download from: https://www.7-zip.org/download.html'' @ newline @
     ''  2. Install to default location'' @ newline @
     ''  3. Re-run this script'' @ newline @ newline @
     ''For CI/CD, install 7-Zip in your pipeline:'' @ newline @
     ''  winget install -e --id 7zip.7zip'' @ newline @
     ''  choco install 7zip  (Chocolatey)'' @ newline @
     ''  or use GitHub Actions: actions/setup-7zip''"

text \<open>The exceptions the loop's \<^verbatim>\<open>except\<close> clause names.\<close>

fun caught_by_loop :: "exn \<Rightarrow> bool" where
  "caught_by_loop FileNotFoundError = True"
| "caught_by_loop (CalledProcessError rc) = True"
| "caught_by_loop x = False"

fun try_seven_zip :: "env \<Rightarrow> string list \<Rightarrow> path \<Rightarrow> path \<Rightarrow> step" where
  "try_seven_zip e [] installer_path temp_dir s = raise (RuntimeError seven_zip_help) s"
| "try_seven_zip e (seven_zip # rest) installer_path temp_dir s =
     (case subprocess_run e (SevenZipExtract seven_zip installer_path temp_dir) True s of
        (None, s1) \<Rightarrow> say (Extracted ''7zip'') s1
      | (Some x, s1) \<Rightarrow>
          if caught_by_loop x then try_seven_zip e rest installer_path temp_dir s1
          else (Some x, s1))"

definition extract_windows_exe :: "env \<Rightarrow> path \<Rightarrow> path \<Rightarrow> step" where
  "extract_windows_exe e installer_path temp_dir =
     seq (say (Extracting ''Windows installer''))
         (try_seven_zip e seven_zip_paths installer_path temp_dir)"

definition extract_linux_tar :: "env \<Rightarrow> path \<Rightarrow> path \<Rightarrow> step" where
  "extract_linux_tar e installer_path temp_dir =
     seq (say (Extracting ''Linux tar''))
    (seq (on_fs (unpack_archive e installer_path temp_dir))
         (say (Extracted ''tar'')))"

text \<open>
  \<^verbatim>\<open>extract_macos_dmg\<close>: the loop over the mounted image copies directories with
  \<^verbatim>\<open>copytree\<close> and everything else with \<^verbatim>\<open>copy2\<close>; the image is detached in the
  \<^verbatim>\<open>finally\<close> clause with \<^verbatim>\<open>check=False\<close>.
\<close>

fun copy_items :: "env \<Rightarrow> path \<Rightarrow> path \<Rightarrow> string list \<Rightarrow> step" where
  "copy_items e mount_point temp_dir [] s = (None, s)"
| "copy_items e mount_point temp_dir (item # items) s =
     (case (if is_dir (fs s) (mount_point @ [item])
            then on_fs (copytree e (mount_point @ [item]) (temp_dir @ [item])) s
            else on_fs (copy2 e (mount_point @ [item]) (temp_dir @ [item])) s) of
        (None, s1) \<Rightarrow> copy_items e mount_point temp_dir items s1
      | (Some x, s1) \<Rightarrow> (Some x, s1))"

definition extract_macos_dmg :: "env \<Rightarrow> path \<Rightarrow> path \<Rightarrow> step" where
  "extract_macos_dmg e installer_path temp_dir =
     (let mount_point = temp_dir @ [''dmg_mount''] in
      seq (say (Extracting ''macOS DMG''))
     (seq (on_fs (mkdir mount_point True))
     (seq (subprocess_run e (HdiutilAttach installer_path mount_point) True)
     (seq (try_finally
             (\<lambda>s. case iterdir (fs s) mount_point of
                     Inl x \<Rightarrow> (Some x, s)
                   | Inr items \<Rightarrow> copy_items e mount_point temp_dir items s)
             (subprocess_run e (HdiutilDetach mount_point) False))
          (say (Extracted ''DMG''))))))"

definition fmod_extract :: "env \<Rightarrow> string \<Rightarrow> path \<Rightarrow> path \<Rightarrow> step" where
  "fmod_extract e platform installer_path temp_dir =
     (if platform = ''windows'' then extract_windows_exe e installer_path temp_dir
      else if platform = ''linux'' then extract_linux_tar e installer_path temp_dir
      else if platform = ''mac'' then extract_macos_dmg e installer_path temp_dir
      else skip)"

text \<open>
  A source of a copy is a \<^verbatim>\<open>Path\<close> or, in the graphics library installer, the string
  \<^verbatim>\<open>""\<close>; a string has no method \<^verbatim>\<open>exists\<close>.
\<close>

datatype pyval = PStr string | PPath path

text \<open>
  The block both installers repeat for each directory they copy: when the source exists,
  the destination's parent is created, the tree is copied over the destination and the
  number of entries of the destination is reported; otherwise a warning is printed. On a
  string the call \<^verbatim>\<open>src.exists()\<close> raises \<^verbatim>\<open>AttributeError\<close>.
\<close>

definition copy_block :: "env \<Rightarrow> string \<Rightarrow> pyval \<Rightarrow> path \<Rightarrow> step" where
  "copy_block e label src dst s =
     (case src of
        PStr str \<Rightarrow> (Some (AttributeError ''str object has no attribute exists''), s)
      | PPath p \<Rightarrow>
          if exists_path (fs s) p then
            seq (on_fs (\<lambda>n. case makedirs (parent dst) n of
                               Inl x \<Rightarrow> (Some x, n) | Inr n' \<Rightarrow> (None, n')))
           (seq (on_fs (copytree e p dst))
                (\<lambda>s'. say (Copied label (length (glob_star (fs s') dst))) s')) s
          else say (NotFoundWarning label) s)"

text \<open>
  The source root of \<^verbatim>\<open>copy_api_files\<close>: \<^verbatim>\<open>api_dirs\<close> is what \<^verbatim>\<open>rglob('api')\<close> finds
  below the temporary directory, or the list holding the temporary directory itself when
  nothing is found; the root is the parent of its first element.
\<close>

definition fmod_source_root :: "node \<Rightarrow> path \<Rightarrow> path" where
  "fmod_source_root n temp_dir =
     (let api_dirs = rglob n temp_dir ''api'';
          api_dirs = (if api_dirs = [] then [temp_dir] else api_dirs)
      in case api_dirs of d # _ \<Rightarrow> parent d | [] \<Rightarrow> temp_dir)"

text \<open>\<^verbatim>\<open>copy_plugins\<close>: the loop over the configured files, with the count of copies.\<close>

fun copy_plugin_files :: "env \<Rightarrow> path \<Rightarrow> path \<Rightarrow> string list \<Rightarrow> nat \<Rightarrow> nat \<Rightarrow> step" where
  "copy_plugin_files e source_root dst_dir [] copied_count n_plugins s =
     say (PluginsCopied copied_count n_plugins) s"
| "copy_plugin_files e source_root dst_dir (plugin_path # rest) copied_count n_plugins s =
     (let src_file = pjoin source_root plugin_path in
      if exists_path (fs s) src_file then
        (case on_fs (copy2 e src_file (dst_dir @ [name_of src_file])) s of
           (Some x, s1) \<Rightarrow> (Some x, s1)
         | (None, s1) \<Rightarrow>
             copy_plugin_files e source_root dst_dir rest (copied_count + 1) n_plugins
               (snd (say (PluginCopied (name_of src_file)) s1)))
      else
        copy_plugin_files e source_root dst_dir rest copied_count n_plugins
          (snd (say (PluginMissing (name_of src_file) plugin_path) s)))"

definition copy_plugins :: "env \<Rightarrow> path \<Rightarrow> string \<Rightarrow> step" where
  "copy_plugins e source_root platform s =
     (case map_of fmod_PLATFORM_CONFIG platform of
        None \<Rightarrow> (Some (KeyError platform), s)
      | Some config \<Rightarrow>
          (case plugins (fmod_api_structure config) of
             None \<Rightarrow> say NoPluginsConfigured s
           | Some (PluginDir d) \<Rightarrow>
               if d = [] then say NoPluginsConfigured s
               else copy_block e ''plugins'' (PPath (pjoin source_root d))
                      (FMOD_LIB_DIR e @ [''plugins'', fmod_lib_subdir config]) s
           | Some (PluginSet plugin_paths) \<Rightarrow>
               if plugin_paths = [] then say NoPluginsConfigured s
               else
                 (let dst_dir = FMOD_LIB_DIR e @ [''plugins'', fmod_lib_subdir config] in
                  seq (say (CopyingPlugins (length plugin_paths)))
                 (seq (on_fs (\<lambda>n. case makedirs dst_dir n of
                                     Inl x \<Rightarrow> (Some x, n) | Inr n' \<Rightarrow> (None, n')))
                      (copy_plugin_files e source_root dst_dir plugin_paths 0
                         (length plugin_paths))) s)))"

definition fmod_copy_api_files :: "env \<Rightarrow> path \<Rightarrow> string \<Rightarrow> step" where
  "fmod_copy_api_files e temp_dir platform =
     seq (say Copying)
       (\<lambda>s. case map_of fmod_PLATFORM_CONFIG platform of
               None \<Rightarrow> (Some (KeyError platform), s)
             | Some config \<Rightarrow>
                 (let api_structure = fmod_api_structure config;
                      source_root = fmod_source_root (fs s) temp_dir
                  in
                  seq (copy_block e ''core headers''
                         (PPath (pjoin source_root (core_inc_dir api_structure)))
                         (FMOD_LIB_DIR e @ [''core'', ''inc'']))
                 (seq (copy_block e ''core libraries''
                         (PPath (pjoin source_root (core_lib_dir api_structure)))
                         (FMOD_LIB_DIR e @ [''core'', ''lib'', fmod_lib_subdir config]))
                 (seq (copy_block e ''studio headers''
                         (PPath (pjoin source_root (studio_inc_dir api_structure)))
                         (FMOD_LIB_DIR e @ [''studio'', ''inc'']))
                 (seq (copy_block e ''studio libraries''
                         (PPath (pjoin source_root (studio_lib_dir api_structure)))
                         (FMOD_LIB_DIR e @ [''studio'', ''lib'', fmod_lib_subdir config]))
                      (copy_plugins e source_root platform)))) s))"

section \<open>The graphics library installer: \<^verbatim>\<open>install_raylib.py\<close>\<close>

record raylib_api_structure =
  inc_dir :: string
  lib_dir :: string

record raylib_config =
  raylib_lib_subdir :: string
  raylib_api_structure :: raylib_api_structure

definition raylib_PLATFORM_CONFIG :: "(string \<times> raylib_config) list" where
  "raylib_PLATFORM_CONFIG =
     [(''windows'', \<lparr>raylib_lib_subdir = ''win_x64'',
                     raylib_api_structure = \<lparr>inc_dir = ''include'', lib_dir = ''lib''\<rparr>\<rparr>),
      (''linux'', \<lparr>raylib_lib_subdir = ''linux_x64'',
                   raylib_api_structure = \<lparr>inc_dir = ''include'', lib_dir = ''lib''\<rparr>\<rparr>),
      (''mac'', \<lparr>raylib_lib_subdir = ''mac'',
                 raylib_api_structure = \<lparr>inc_dir = ''include'', lib_dir = ''lib''\<rparr>\<rparr>)]"

definition RAYLIB_LIB_DIR :: "env \<Rightarrow> path" where
  "RAYLIB_LIB_DIR e = project_root e @ [''libs'', ''raylib'']"

definition extract_installer :: "env \<Rightarrow> path \<Rightarrow> path \<Rightarrow> step" where
  "extract_installer e installer_path temp_dir =
     seq (say (Extracting ''archive''))
    (seq (on_fs (unpack_archive e installer_path temp_dir))
         (say (Extracted ''archive'')))"

definition raylib_extract :: "env \<Rightarrow> string \<Rightarrow> path \<Rightarrow> path \<Rightarrow> step" where
  "raylib_extract e platform installer_path temp_dir =
     extract_installer e installer_path temp_dir"

text \<open>
  \<^verbatim>\<open>copy_api_files\<close>: both searches run before anything is copied; a source is the first
  match of its search, or the string \<^verbatim>\<open>""\<close> when the search found nothing.
\<close>

definition first_or_empty :: "path list \<Rightarrow> pyval" where
  "first_or_empty ds = (case ds of d # _ \<Rightarrow> PPath d | [] \<Rightarrow> PStr [])"

definition raylib_copy_api_files :: "env \<Rightarrow> path \<Rightarrow> string \<Rightarrow> step" where
  "raylib_copy_api_files e temp_dir platform =
     seq (say Copying)
       (\<lambda>s. case map_of raylib_PLATFORM_CONFIG platform of
               None \<Rightarrow> (Some (KeyError platform), s)
             | Some config \<Rightarrow>
                 (let api_structure = raylib_api_structure config;
                      inc_src_dirs = rglob (fs s) temp_dir (inc_dir api_structure);
                      lib_src_dirs = rglob (fs s) temp_dir (lib_dir api_structure)
                  in
                  seq (copy_block e ''Raylib headers'' (first_or_empty inc_src_dirs)
                         (pjoin (RAYLIB_LIB_DIR e) (inc_dir api_structure)))
                      (copy_block e ''Raylib libraries'' (first_or_empty lib_src_dirs)
                         (pjoin (pjoin (RAYLIB_LIB_DIR e) (lib_dir api_structure))
                            (raylib_lib_subdir config))) s))"

section \<open>\<^verbatim>\<open>main\<close> of the installers\<close>

text \<open>
  The two \<^verbatim>\<open>main\<close> functions differ in the detection function, the prefix of the
  temporary directory, the extraction and the copy step, which are parameters here.

  \<open>install_attempt\<close> is the \<^verbatim>\<open>try\<close> statement: the body extracts, copies, reports and,
  when asked, deletes the installer; \<^verbatim>\<open>except Exception\<close> prints the error and exits
  with status 1 (\<^verbatim>\<open>SystemExit\<close> is no \<^verbatim>\<open>Exception\<close> and passes through); the \<^verbatim>\<open>finally\<close>
  clause removes the temporary directory, and an exception raised there replaces the
  pending exit.
\<close>

definition install_body ::
  "(env \<Rightarrow> string \<Rightarrow> path \<Rightarrow> path \<Rightarrow> step) \<Rightarrow> (env \<Rightarrow> path \<Rightarrow> string \<Rightarrow> step) \<Rightarrow>
   env \<Rightarrow> string \<Rightarrow> path \<Rightarrow> bool \<Rightarrow> path \<Rightarrow> step" where
  "install_body extractor copy_api_files e platform installer_path delete_installer temp_dir =
     seq (extractor e platform installer_path temp_dir)
    (seq (copy_api_files e temp_dir platform)
    (seq (say InstallationComplete)
         (if delete_installer
          then seq (say DeletingInstaller)
              (seq (on_fs (unlink installer_path))
                   (say (Deleted (name_of installer_path))))
          else skip)))"

definition install_attempt ::
  "(env \<Rightarrow> string \<Rightarrow> path \<Rightarrow> path \<Rightarrow> step) \<Rightarrow> (env \<Rightarrow> path \<Rightarrow> string \<Rightarrow> step) \<Rightarrow>
   env \<Rightarrow> string \<Rightarrow> path \<Rightarrow> bool \<Rightarrow> path \<Rightarrow> state \<Rightarrow> exit \<times> state" where
  "install_attempt extractor copy_api_files e platform installer_path delete_installer temp_dir s =
     (case install_body extractor copy_api_files e platform installer_path delete_installer
             temp_dir s of
        (r, s1) \<Rightarrow>
          (let (pending, s2) =
                 (case r of
                    None \<Rightarrow> (Exit 0, s1)
                  | Some (SystemExit k) \<Rightarrow> (Exit k, s1)
                  | Some x \<Rightarrow> (Exit 1, snd (say (ErrorMsg x) s1)))
           in case seq (say CleaningUp) (seq (on_fs (rmtree e temp_dir)) (say TempRemoved)) s2 of
                (None, s3) \<Rightarrow> (pending, s3)
              | (Some y, s3) \<Rightarrow> (Uncaught y, s3)))"

text \<open>
  The path of the installer as the operating system resolves it (relative to the working
  directory), and \<^verbatim>\<open>installer_path.name\<close>.
\<close>

definition resolve :: "env \<Rightarrow> string \<Rightarrow> path" where
  "resolve e a = pjoin (cwd e) a"

definition install_main ::
  "(string \<Rightarrow> exn + string) \<Rightarrow> string \<Rightarrow>
   (env \<Rightarrow> string \<Rightarrow> path \<Rightarrow> path \<Rightarrow> step) \<Rightarrow> (env \<Rightarrow> path \<Rightarrow> string \<Rightarrow> step) \<Rightarrow>
   env \<Rightarrow> string list \<Rightarrow> state \<Rightarrow> exit \<times> state" where
  "install_main detect_platform temp_prefix extractor copy_api_files e argv s =
     (if length argv < 2 \<or> length argv > 3 then (Exit 1, snd (say Usage s))
      else
        (let installer_path = resolve e (argv ! 1);
             delete_installer = (length argv = 3 \<and> argv ! 2 = ''--delete-installer'')
         in
         if \<not> is_file (fs s) installer_path
         then (Exit 1, snd (say (InstallerNotFound (argv ! 1)) s))
         else
           (case detect_platform (name_of (parts (argv ! 1))) of
              Inl x \<Rightarrow>
                (case x of
                   ValueError m \<Rightarrow> (Exit 1, snd (seq (say Banner) (say (ErrorMsg x)) s))
                 | _ \<Rightarrow> (Uncaught x, snd (say Banner s)))
            | Inr platform \<Rightarrow>
                (let s1 = snd (seq (say Banner)
                              (seq (say (InstallerFound (name_of (parts (argv ! 1)))))
                                   (say (PlatformMsg platform))) s)
                 in case mkdtemp (tempdir e) temp_prefix (random_names e) (fs s1) of
                      (Inl x, n) \<Rightarrow> (Uncaught x, s1\<lparr>fs := n\<rparr>)
                    | (Inr temp_dir, n) \<Rightarrow>
                        install_attempt extractor copy_api_files e platform installer_path
                          delete_installer temp_dir
                          (snd (say (TempDirectory temp_dir) (s1\<lparr>fs := n\<rparr>)))))))"

definition fmod_main :: "env \<Rightarrow> string list \<Rightarrow> state \<Rightarrow> exit \<times> state" where
  "fmod_main =
     install_main fmod_detect_platform ''temp_fmod_install_'' fmod_extract fmod_copy_api_files"

definition raylib_main :: "env \<Rightarrow> string list \<Rightarrow> state \<Rightarrow> exit \<times> state" where
  "raylib_main =
     install_main raylib_detect_platform ''temp_raylib_install_'' raylib_extract
       raylib_copy_api_files"

section \<open>Assumptions on the environment\<close>

text \<open>
  The outcomes after which the loop of \<^verbatim>\<open>extract_windows_exe\<close> goes on to the next
  candidate, those of the two exceptions its \<^verbatim>\<open>except\<close> clause names: the program is
  absent (\<^verbatim>\<open>FileNotFoundError\<close>), or it ran and exited with a non-zero status
  (\<^verbatim>\<open>CalledProcessError\<close>). A program that is there and cannot be started is not among
  them.
\<close>

fun skipped_by_loop :: "outcome \<Rightarrow> bool" where
  "skipped_by_loop NotFound = True"
| "skipped_by_loop (Exited rc) = (rc \<noteq> 0)"
| "skipped_by_loop (SpawnFailed m) = False"

text \<open>
  The external programs and the \<^verbatim>\<open>shutil\<close> routines leave the file at \<open>p\<close> a file: they
  neither delete the installer nor replace it by a directory.
\<close>

definition env_keeps_file :: "env \<Rightarrow> path \<Rightarrow> bool" where
  "env_keeps_file e p \<longleftrightarrow>
     (\<forall>c n. is_file n p \<longrightarrow> is_file (snd (spawn e c n)) p)
   \<and> (\<forall>a t n. is_file n p \<longrightarrow> is_file (snd (unpack_archive e a t n)) p)
   \<and> (\<forall>a b n. is_file n p \<longrightarrow> is_file (snd (copytree e a b n)) p)
   \<and> (\<forall>a b n. is_file n p \<longrightarrow> is_file (snd (copy2 e a b n)) p)"

text \<open>A step keeps the file at \<open>p\<close> when the file is still there in the state it returns.\<close>

definition keeps :: "path \<Rightarrow> step \<Rightarrow> bool" where
  "keeps p f \<longleftrightarrow> (\<forall>s. is_file (fs s) p \<longrightarrow> is_file (fs (snd (f s))) p)"

section \<open>A concrete environment\<close>

text \<open>
  An environment in which no external program is installed and every archive unpacks to
  nothing, with a file system that holds one installer of each kind and, in the second
  variant, the two temporary directories already created and still empty. The third
  variant has a directory \<^verbatim>\<open>api/core/inc\<close> beside the temporary directory, outside of it.
\<close>

definition example_env :: env where
  "example_env =
     \<lparr>project_root = [''proj''], cwd = [''proj'', ''tools''], tempdir = [''tmp''],
      random_names = [''a1b2c3d4''],
      spawn = (\<lambda>c n. (NotFound, n)),
      unpack_archive = (\<lambda>a t n. (None, n)),
      copytree = (\<lambda>a b n. (None, n)),
      copy2 = (\<lambda>a b n. (None, n)),
      rmtree_failure = (\<lambda>p n. None)\<rparr>"

text \<open>
  Two more variants: one in which no program can be started (permission denied), and one
  in which the removal of a directory tree gets stuck at once.
\<close>

definition example_env_blocked :: env where
  "example_env_blocked =
     example_env\<lparr>spawn := (\<lambda>c n. (SpawnFailed ''Permission denied'', n))\<rparr>"

definition example_env_locked :: env where
  "example_env_locked =
     example_env\<lparr>rmtree_failure := (\<lambda>p n. Some (OSError ''Permission denied'', []))\<rparr>"

text \<open>The same environment with 7-Zip installed at the fixed paths but not on the search path.\<close>

definition example_env_7z :: env where
  "example_env_7z =
     example_env\<lparr>spawn :=
       (\<lambda>c n. case c of
                 SevenZipExtract z installer_path temp_dir \<Rightarrow>
                   if z = ''7z'' then (NotFound, n) else (Exited 0, n)
               | _ \<Rightarrow> (NotFound, n))\<rparr>"

definition example_tools :: node where
  "example_tools =
     Dir [(''tools'', Dir [(''raylib-5.5_win64_msvc16.zip'', File),
                           (''fmodstudioapi20312linux.tar.gz'', File),
                           (''fmodstudioapi20312win-installer.exe'', File)])]"

definition example_fs :: node where
  "example_fs = Dir [(''tmp'', Dir []), (''proj'', example_tools)]"

definition example_workspace :: node where
  "example_workspace =
     Dir [(''tmp'', Dir [(''temp_fmod_install_a1b2c3d4'', Dir []),
                         (''temp_raylib_install_a1b2c3d4'', Dir [])]),
          (''proj'', example_tools)]"

definition example_stray :: node where
  "example_stray =
     Dir [(''tmp'', Dir [(''temp_fmod_install_a1b2c3d4'', Dir []),
                         (''api'', Dir [(''core'', Dir [(''inc'', Dir [(''fmod.h'', File)])])])]),
          (''proj'', example_tools)]"

definition start :: "node \<Rightarrow> state" where
  "start n = \<lparr>fs = n, out = [], procs = []\<rparr>"

section \<open>Properties of the file system operations\<close>

lemma lookup_append:
  "lookup n (p @ q) = (case lookup n p of None \<Rightarrow> None | Some m \<Rightarrow> lookup m q)"
  by (induction n p rule: lookup.induct) (auto split: option.splits)

lemma file_not_below_missing:
  "lookup n t = None \<Longrightarrow> is_file n p \<Longrightarrow> \<not> prefix t p"
  by (auto simp: prefix_def is_file_def lookup_append)

lemma lookup_remove_self: "t \<noteq> [] \<Longrightarrow> lookup (remove t n) t = None"
proof (induction t n rule: remove.induct)
  case (3 c es)
  then show ?case by (simp add: AList.delete_conv')
next
  case (4 c v va es)
  then show ?case by (simp add: map_of_map_entry split: option.splits)
qed simp_all

lemma is_file_remove:
  "\<not> prefix t p \<Longrightarrow> is_file n p \<Longrightarrow> is_file (remove t n) p"
  unfolding is_file_def
proof (induction t n arbitrary: p rule: remove.induct)
  case (1 n)
  then show ?case by simp
next
  case (2 c cs)
  then show ?case by (cases p) simp_all
next
  case (3 c es)
  then show ?case
    by (cases p) (auto simp: AList.delete_conv' split: option.splits)
next
  case (4 c v va es)
  then show ?case
    by (cases p) (auto simp: map_of_map_entry split: option.splits)
qed

lemma makedirs_keeps_file:
  "makedirs p n = Inr n' \<Longrightarrow> is_file n q \<Longrightarrow> is_file n' q"
  unfolding is_file_def
proof (induction p n arbitrary: n' q rule: makedirs.induct)
  case (4 c cs es)
  show ?case
  proof (cases q)
    case Nil
    with 4 show ?thesis by simp
  next
    case (Cons d ds)
    with 4 show ?thesis
      by (auto simp: AList.update_conv' split: option.splits sum.splits if_splits)
  qed
qed auto

lemma mkdir_keeps_file: "is_file n q \<Longrightarrow> is_file (snd (mkdir p ok n)) q"
  by (auto simp: mkdir_def split: option.splits node.splits sum.splits
      dest: makedirs_keeps_file)

lemma mkdir_created: "mkdir p False n = (None, n') \<Longrightarrow> lookup n p = None"
  by (auto simp: mkdir_def split: option.splits node.splits sum.splits)

lemma mkdtemp_result:
  "mkdtemp dir pre rs n = (Inr t, n') \<Longrightarrow>
     lookup n t = None \<and> t \<noteq> [] \<and> (is_file n q \<longrightarrow> is_file n' q)"
proof (induction rs)
  case Nil
  then show ?case by simp
next
  case (Cons r rs)
  show ?case
  proof (cases "mkdir (dir @ [pre @ r]) False n")
    case (Pair x n1)
    show ?thesis
    proof (cases x)
      case None
      with Pair Cons.prems have t: "t = dir @ [pre @ r]" and n': "n' = n1" by simp_all
      from Pair None have "lookup n (dir @ [pre @ r]) = None" by (simp add: mkdir_created)
      moreover have "is_file n q \<longrightarrow> is_file n1 q"
        using mkdir_keeps_file [of n q "dir @ [pre @ r]" False] Pair by simp
      ultimately show ?thesis using t n' by simp
    next
      case (Some y)
      with Pair Cons show ?thesis by (auto split: if_splits)
    qed
  qed
qed

lemma mkdtemp_failure: "mkdtemp dir pre rs n = (Inl x, n') \<Longrightarrow> n' = n"
  by (induction rs) (auto split: prod.splits option.splits if_splits)

lemma rmtree_not_dir:
  "t \<noteq> [] \<Longrightarrow> rmtree_failure e t n = None \<Longrightarrow> \<not> is_dir (snd (rmtree e t n)) t"
  by (auto simp: rmtree_def is_dir_def lookup_remove_self split: option.splits node.splits)

lemma rmtree_gone: "t \<noteq> [] \<Longrightarrow> rmtree e t n = (None, n') \<Longrightarrow> \<not> exists_path n' t"
  by (auto simp: rmtree_def exists_path_def lookup_remove_self
      split: option.splits node.splits prod.splits)

lemma is_file_remove_below:
  "\<not> prefix t p \<Longrightarrow> is_file n p \<Longrightarrow> is_file (fold (\<lambda>q. remove (t @ q)) qs n) p"
proof (induction qs arbitrary: n)
  case Nil
  then show ?case by simp
next
  case (Cons q qs)
  have "\<not> prefix (t @ q) p" using Cons.prems(1) by (auto simp: prefix_def)
  then have "is_file (remove (t @ q) n) p" using Cons.prems(2) by (rule is_file_remove)
  then show ?case using Cons.IH [OF Cons.prems(1)] by simp
qed

lemma rmtree_keeps_file:
  "\<not> prefix t p \<Longrightarrow> is_file n p \<Longrightarrow> is_file (snd (rmtree e t n)) p"
  by (auto simp: rmtree_def is_file_remove is_file_remove_below
      split: option.splits node.splits prod.splits)

lemma unlink_failure: "unlink p n = (Some x, n') \<Longrightarrow> n' = n"
  by (auto simp: unlink_def split: option.splits node.splits)

lemma unlink_file: "is_file n p \<Longrightarrow> fst (unlink p n) = None"
  by (auto simp: unlink_def is_file_def)

section \<open>Steps that keep the installer\<close>

lemma keepsD: "keeps p f \<Longrightarrow> is_file (fs s) p \<Longrightarrow> is_file (fs (snd (f s))) p"
  by (simp add: keeps_def)

lemma keeps_skip: "keeps p skip"
  by (simp add: keeps_def skip_def)

lemma keeps_say: "keeps p (say m)"
  by (simp add: keeps_def say_def)

lemma keeps_raise: "keeps p (raise x)"
  by (simp add: keeps_def raise_def)

lemma keeps_seq: "keeps p f \<Longrightarrow> keeps p g \<Longrightarrow> keeps p (seq f g)"
  unfolding keeps_def seq_def
  by (auto split: prod.splits option.splits; metis snd_conv)

lemma keeps_try_finally: "keeps p f \<Longrightarrow> keeps p g \<Longrightarrow> keeps p (try_finally f g)"
  unfolding keeps_def try_finally_def
  by (auto split: prod.splits option.splits; metis snd_conv)

lemma keeps_on_fs:
  "(\<And>n. is_file n p \<Longrightarrow> is_file (snd (f n)) p) \<Longrightarrow> keeps p (on_fs f)"
  unfolding keeps_def on_fs_def
  by (auto split: prod.splits; metis snd_conv)

lemma keeps_subprocess_run: "env_keeps_file e p \<Longrightarrow> keeps p (subprocess_run e c check)"
  unfolding keeps_def subprocess_run_def env_keeps_file_def
  by (auto split: prod.splits; metis snd_conv)

lemma keeps_makedirs:
  "keeps p (on_fs (\<lambda>n. case makedirs d n of Inl x \<Rightarrow> (Some x, n) | Inr n' \<Rightarrow> (None, n')))"
  by (rule keeps_on_fs) (auto split: sum.splits dest: makedirs_keeps_file)

lemma keeps_try_seven_zip:
  "env_keeps_file e p \<Longrightarrow> keeps p (try_seven_zip e zs installer_path temp_dir)"
proof (induction zs)
  case Nil
  then show ?case by (simp add: keeps_def raise_def)
next
  case (Cons z zs)
  have run: "keeps p (subprocess_run e (SevenZipExtract z installer_path temp_dir) True)"
    using Cons.prems by (rule keeps_subprocess_run)
  show ?case
    unfolding keeps_def
  proof (intro allI impI)
    fix s :: state
    assume f: "is_file (fs s) p"
    obtain r s1 where rs: "subprocess_run e (SevenZipExtract z installer_path temp_dir) True s = (r, s1)"
      by (cases "subprocess_run e (SevenZipExtract z installer_path temp_dir) True s")
    have f1: "is_file (fs s1) p" using keepsD [OF run f] rs by simp
    show "is_file (fs (snd (try_seven_zip e (z # zs) installer_path temp_dir s))) p"
      using rs f1 keepsD [OF Cons.IH [OF Cons.prems] f1]
      by (auto simp: say_def split: option.splits)
  qed
qed

lemma keeps_extract_windows_exe:
  "env_keeps_file e p \<Longrightarrow> keeps p (extract_windows_exe e installer_path temp_dir)"
  unfolding extract_windows_exe_def
  by (intro keeps_seq keeps_say keeps_try_seven_zip)

lemma keeps_unpack:
  "env_keeps_file e p \<Longrightarrow> keeps p (on_fs (unpack_archive e a t))"
  by (rule keeps_on_fs) (simp add: env_keeps_file_def)

lemma keeps_copytree:
  "env_keeps_file e p \<Longrightarrow> keeps p (on_fs (copytree e a b))"
  by (rule keeps_on_fs) (simp add: env_keeps_file_def)

lemma keeps_copy2:
  "env_keeps_file e p \<Longrightarrow> keeps p (on_fs (copy2 e a b))"
  by (rule keeps_on_fs) (simp add: env_keeps_file_def)

lemma keeps_extract_linux_tar:
  "env_keeps_file e p \<Longrightarrow> keeps p (extract_linux_tar e installer_path temp_dir)"
  unfolding extract_linux_tar_def
  by (intro keeps_seq keeps_say keeps_unpack)

lemma keeps_extract_installer:
  "env_keeps_file e p \<Longrightarrow> keeps p (extract_installer e installer_path temp_dir)"
  unfolding extract_installer_def
  by (intro keeps_seq keeps_say keeps_unpack)

lemma keeps_copy_items:
  "env_keeps_file e p \<Longrightarrow> keeps p (copy_items e mount_point temp_dir items)"
proof (induction items)
  case Nil
  then show ?case by (simp add: keeps_def)
next
  case (Cons item items)
  show ?case
    unfolding keeps_def
  proof (intro allI impI)
    fix s :: state
    assume f: "is_file (fs s) p"
    let ?step = "if is_dir (fs s) (mount_point @ [item])
                 then on_fs (copytree e (mount_point @ [item]) (temp_dir @ [item]))
                 else on_fs (copy2 e (mount_point @ [item]) (temp_dir @ [item]))"
    have k: "keeps p ?step"
      using Cons.prems by (simp add: keeps_copytree keeps_copy2)
    obtain r s1 where rs: "?step s = (r, s1)" by (cases "?step s")
    have f1: "is_file (fs s1) p" using keepsD [OF k f] rs by simp
    show "is_file (fs (snd (copy_items e mount_point temp_dir (item # items) s))) p"
      using rs f1 keepsD [OF Cons.IH [OF Cons.prems] f1]
      by (auto split: option.splits if_splits)
  qed
qed

lemma keeps_iterate:
  "env_keeps_file e p \<Longrightarrow>
   keeps p (\<lambda>s. case iterdir (fs s) mount_point of
                   Inl x \<Rightarrow> (Some x, s)
                 | Inr items \<Rightarrow> copy_items e mount_point temp_dir items s)"
  unfolding keeps_def
  by (auto split: sum.splits dest: keepsD [OF keeps_copy_items])

lemma keeps_mkdir: "keeps p (on_fs (mkdir d ok))"
  by (rule keeps_on_fs) (rule mkdir_keeps_file)

lemma keeps_extract_macos_dmg:
  "env_keeps_file e p \<Longrightarrow> keeps p (extract_macos_dmg e installer_path temp_dir)"
  unfolding extract_macos_dmg_def Let_def
  by (intro keeps_seq keeps_say keeps_mkdir keeps_subprocess_run keeps_try_finally
      keeps_iterate)

lemma keeps_fmod_extract:
  "env_keeps_file e p \<Longrightarrow> keeps p (fmod_extract e platform installer_path temp_dir)"
  unfolding fmod_extract_def
  by (simp add: keeps_extract_windows_exe keeps_extract_linux_tar keeps_extract_macos_dmg
      keeps_skip)

lemma keeps_raylib_extract:
  "env_keeps_file e p \<Longrightarrow> keeps p (raylib_extract e platform installer_path temp_dir)"
  unfolding raylib_extract_def by (rule keeps_extract_installer)

lemma keeps_copy_block:
  assumes "env_keeps_file e p"
  shows "keeps p (copy_block e label src dst)"
  unfolding keeps_def
proof (intro allI impI)
  fix s :: state
  assume f: "is_file (fs s) p"
  show "is_file (fs (snd (copy_block e label src dst s))) p"
  proof (cases src)
    case (PStr str)
    then show ?thesis using f by (simp add: copy_block_def)
  next
    case (PPath q)
    have k: "keeps p
       (seq (on_fs (\<lambda>n. case makedirs (parent dst) n of
                           Inl x \<Rightarrow> (Some x, n) | Inr n' \<Rightarrow> (None, n')))
       (seq (on_fs (copytree e q dst))
            (\<lambda>s'. say (Copied label (length (glob_star (fs s') dst))) s')))"
      by (intro keeps_seq keeps_makedirs keeps_copytree assms)
         (simp add: keeps_def say_def)
    show ?thesis
      using PPath f keepsD [OF k f] keepsD [OF keeps_say f]
      by (simp add: copy_block_def)
  qed
qed

lemma keeps_copy_plugin_files:
  "env_keeps_file e p \<Longrightarrow>
   keeps p (copy_plugin_files e source_root dst_dir plugin_paths copied_count n_plugins)"
proof (induction plugin_paths arbitrary: copied_count)
  case Nil
  then show ?case by (simp add: keeps_def say_def)
next
  case (Cons plugin_path rest)
  show ?case
    unfolding keeps_def
  proof (intro allI impI)
    fix s :: state
    assume f: "is_file (fs s) p"
    let ?src = "pjoin source_root plugin_path"
    let ?cp = "on_fs (copy2 e ?src (dst_dir @ [name_of ?src]))"
    obtain r s1 where rs: "?cp s = (r, s1)" by (cases "?cp s")
    have f1: "is_file (fs s1) p"
      using keepsD [OF keeps_copy2 [OF Cons.prems] f, of ?src "dst_dir @ [name_of ?src]"] rs
      by simp
    have f2: "is_file (fs (snd (say m s1))) p" for m
      using f1 by (simp add: say_def)
    have f3: "is_file (fs (snd (say m s))) p" for m
      using f by (simp add: say_def)
    show "is_file (fs (snd (copy_plugin_files e source_root dst_dir (plugin_path # rest)
                              copied_count n_plugins s))) p"
      using rs f1 keepsD [OF Cons.IH [OF Cons.prems] f2] keepsD [OF Cons.IH [OF Cons.prems] f3]
      by (auto simp: Let_def split: option.splits)
  qed
qed

lemma keeps_copy_plugins:
  assumes "env_keeps_file e p"
  shows "keeps p (copy_plugins e source_root platform)"
  unfolding keeps_def
proof (intro allI impI)
  fix s :: state
  assume f: "is_file (fs s) p"
  have k: "keeps p
     (seq (say (CopyingPlugins k))
     (seq (on_fs (\<lambda>n. case makedirs d n of Inl x \<Rightarrow> (Some x, n) | Inr n' \<Rightarrow> (None, n')))
          (copy_plugin_files e source_root d ps 0 k)))" for k d ps
    by (intro keeps_seq keeps_say keeps_makedirs keeps_copy_plugin_files assms)
  show "is_file (fs (snd (copy_plugins e source_root platform s))) p"
    using f keepsD [OF k f] keepsD [OF keeps_say f] keepsD [OF keeps_copy_block [OF assms] f]
    by (auto simp: copy_plugins_def Let_def split: option.splits plugins_cfg.splits)
qed

lemma keeps_fmod_copy_api_files:
  assumes "env_keeps_file e p"
  shows "keeps p (fmod_copy_api_files e temp_dir platform)"
proof -
  have inner: "keeps p
     (\<lambda>s. case map_of fmod_PLATFORM_CONFIG platform of
             None \<Rightarrow> (Some (KeyError platform), s)
           | Some config \<Rightarrow> body config s s)"
    if "\<And>config s0. keeps p (body config s0)" for body
    using that unfolding keeps_def by (auto split: option.splits)
  show ?thesis
    unfolding fmod_copy_api_files_def Let_def
    by (intro keeps_seq keeps_say inner keeps_copy_block keeps_copy_plugins assms)
qed

lemma keeps_raylib_copy_api_files:
  assumes "env_keeps_file e p"
  shows "keeps p (raylib_copy_api_files e temp_dir platform)"
proof -
  have inner: "keeps p
     (\<lambda>s. case map_of raylib_PLATFORM_CONFIG platform of
             None \<Rightarrow> (Some (KeyError platform), s)
           | Some config \<Rightarrow> body config s s)"
    if "\<And>config s0. keeps p (body config s0)" for body
    using that unfolding keeps_def by (auto split: option.splits)
  show ?thesis
    unfolding raylib_copy_api_files_def Let_def
    by (intro keeps_seq keeps_say inner keeps_copy_block assms)
qed

section \<open>The \<^verbatim>\<open>try\<close> statement of \<^verbatim>\<open>main\<close>\<close>

lemma body_error_keeps:
  assumes kx: "keeps p (extractor e pl p t)" and kc: "keeps p (copy e t pl)"
    and f: "is_file (fs s) p"
    and b: "install_body extractor copy e pl p dflag t s = (Some x, s1)"
  shows "is_file (fs s1) p"
proof -
  obtain r1 sa where x: "extractor e pl p t s = (r1, sa)" by (cases "extractor e pl p t s")
  have fa: "is_file (fs sa) p" using keepsD [OF kx f] x by simp
  obtain r2 sb where c: "copy e t pl sa = (r2, sb)" by (cases "copy e t pl sa")
  have fb: "is_file (fs sb) p" using keepsD [OF kc fa] c by simp
  have u: "fst (unlink p (fs sb)) = None" using fb by (rule unlink_file)
  show ?thesis
    using b x c fa fb u
    by (auto simp: install_body_def seq_def say_def skip_def on_fs_def
        split: option.splits prod.splits if_splits)
qed

lemma body_keeps_without_delete:
  assumes kx: "keeps p (extractor e pl p t)" and kc: "keeps p (copy e t pl)"
  shows "keeps p (install_body extractor copy e pl p False t)"
  unfolding install_body_def
  by (simp add: keeps_seq keeps_say keeps_skip kx kc)

lemma body_complete:
  "install_body extractor copy e pl p dflag t s = (None, s1) \<Longrightarrow>
     InstallationComplete \<in> set (out s1)"
  by (auto simp: install_body_def seq_def say_def skip_def on_fs_def
      split: option.splits prod.splits if_splits)

lemma cleanup_result:
  "seq (say CleaningUp) (seq (on_fs (rmtree e t)) (say TempRemoved)) s = (r, s') \<Longrightarrow>
     r = fst (rmtree e t (fs s)) \<and> fs s' = snd (rmtree e t (fs s)) \<and> set (out s) \<subseteq> set (out s')
     \<and> CleaningUp \<in> set (out s')"
  by (auto simp: seq_def say_def on_fs_def split: option.splits prod.splits)

lemma attempt_removes_temp:
  assumes t: "t \<noteq> []"
    and a: "install_attempt extractor copy e pl p dflag t s = (r, s')"
  shows "((\<exists>k. r = Exit k) \<longrightarrow> \<not> exists_path (fs s') t)
       \<and> CleaningUp \<in> set (out s')
       \<and> ((\<forall>n. rmtree_failure e t n = None) \<longrightarrow> \<not> is_dir (fs s') t)"
proof -
  obtain rb s1 where b: "install_body extractor copy e pl p dflag t s = (rb, s1)"
    by (cases "install_body extractor copy e pl p dflag t s")
  obtain pending s2 where p2:
    "(case rb of None \<Rightarrow> (Exit 0, s1) | Some (SystemExit k) \<Rightarrow> (Exit k, s1)
      | Some x \<Rightarrow> (Exit 1, snd (say (ErrorMsg x) s1))) = (pending, s2)"
    by (cases "(case rb of None \<Rightarrow> (Exit 0, s1) | Some (SystemExit k) \<Rightarrow> (Exit k, s1)
      | Some x \<Rightarrow> (Exit 1, snd (say (ErrorMsg x) s1)))")
  obtain rc s3 where c:
    "seq (say CleaningUp) (seq (on_fs (rmtree e t)) (say TempRemoved)) s2 = (rc, s3)"
    by (cases "seq (say CleaningUp) (seq (on_fs (rmtree e t)) (say TempRemoved)) s2")
  from cleanup_result [OF c] have rc: "rc = fst (rmtree e t (fs s2))"
    and f3: "fs s3 = snd (rmtree e t (fs s2))" and cu: "CleaningUp \<in> set (out s3)"
    by simp_all
  have s': "s' = s3" and r: "r = (case rc of None \<Rightarrow> pending | Some y \<Rightarrow> Uncaught y)"
    using a b p2 c by (auto simp: install_attempt_def split: option.splits)
  have nd: "\<not> is_dir (fs s3) t" if "\<forall>n. rmtree_failure e t n = None"
    using that f3 rmtree_not_dir [OF t, of e "fs s2"] by simp
  have "\<not> exists_path (fs s3) t" if "rc = None"
    using that rc f3 rmtree_gone [OF t, of e "fs s2" "snd (rmtree e t (fs s2))"]
    by (metis prod.collapse)
  then show ?thesis using nd cu s' r by (auto split: option.splits)
qed

lemma attempt_split:
  assumes a: "install_attempt extractor copy e pl p dflag t s = (r, s')"
  obtains rb s1 pending s2 rc where
    "install_body extractor copy e pl p dflag t s = (rb, s1)"
    "(case rb of None \<Rightarrow> (Exit 0, s1) | Some (SystemExit k) \<Rightarrow> (Exit k, s1)
      | Some x \<Rightarrow> (Exit 1, snd (say (ErrorMsg x) s1))) = (pending, s2)"
    "rc = fst (rmtree e t (fs s2))" "fs s' = snd (rmtree e t (fs s2))"
    "set (out s2) \<subseteq> set (out s')"
    "r = (case rc of None \<Rightarrow> pending | Some y \<Rightarrow> Uncaught y)"
proof -
  obtain rb s1 where b: "install_body extractor copy e pl p dflag t s = (rb, s1)"
    by (cases "install_body extractor copy e pl p dflag t s")
  obtain pending s2 where p2:
    "(case rb of None \<Rightarrow> (Exit 0, s1) | Some (SystemExit k) \<Rightarrow> (Exit k, s1)
      | Some x \<Rightarrow> (Exit 1, snd (say (ErrorMsg x) s1))) = (pending, s2)"
    by (cases "(case rb of None \<Rightarrow> (Exit 0, s1) | Some (SystemExit k) \<Rightarrow> (Exit k, s1)
      | Some x \<Rightarrow> (Exit 1, snd (say (ErrorMsg x) s1)))")
  obtain rc s3 where c: "seq (say CleaningUp) (seq (on_fs (rmtree e t)) (say TempRemoved)) s2 = (rc, s3)"
    by (cases "seq (say CleaningUp) (seq (on_fs (rmtree e t)) (say TempRemoved)) s2")
  have "s' = s3" and "r = (case rc of None \<Rightarrow> pending | Some y \<Rightarrow> Uncaught y)"
    using a b p2 c by (auto simp: install_attempt_def split: option.splits)
  with cleanup_result [OF c] b p2 that show thesis by blast
qed

lemma pending_state:
  "(case rb of None \<Rightarrow> (Exit 0, s1) | Some (SystemExit k) \<Rightarrow> (Exit k, s1)
      | Some x \<Rightarrow> (Exit 1, snd (say (ErrorMsg x) s1))) = (pending, s2) \<Longrightarrow>
   fs s2 = fs s1 \<and> set (out s1) \<subseteq> set (out s2) \<and> (rb = None \<longrightarrow> pending = Exit 0)"
  by (auto simp: say_def split: option.splits exn.splits)

lemma attempt_failure_keeps:
  assumes kx: "keeps p (extractor e pl p t)" and kc: "keeps p (copy e t pl)"
    and f: "is_file (fs s) p" and np: "\<not> prefix t p"
    and a: "install_attempt extractor copy e pl p dflag t s = (r, s')"
  shows "(r = Exit 1 \<longrightarrow> is_file (fs s') p)
       \<and> (\<not> is_file (fs s') p \<longrightarrow> InstallationComplete \<in> set (out s'))
       \<and> (\<not> dflag \<longrightarrow> is_file (fs s') p)"
proof -
  from a obtain rb s1 pending s2 rc where
    b: "install_body extractor copy e pl p dflag t s = (rb, s1)" and
    p2: "(case rb of None \<Rightarrow> (Exit 0, s1) | Some (SystemExit k) \<Rightarrow> (Exit k, s1)
      | Some x \<Rightarrow> (Exit 1, snd (say (ErrorMsg x) s1))) = (pending, s2)" and
    rc: "rc = fst (rmtree e t (fs s2))" and f': "fs s' = snd (rmtree e t (fs s2))" and
    o': "set (out s2) \<subseteq> set (out s')" and
    r: "r = (case rc of None \<Rightarrow> pending | Some y \<Rightarrow> Uncaught y)"
    by (rule attempt_split)
  from pending_state [OF p2] have f2: "fs s2 = fs s1" and o2: "set (out s1) \<subseteq> set (out s2)"
    and p0: "rb = None \<longrightarrow> pending = Exit 0" by simp_all
  have keep: "is_file (fs s') p" if "is_file (fs s1) p"
    using that f' f2 rmtree_keeps_file [OF np, of "fs s1"] by simp
  have err: "is_file (fs s1) p" if "rb \<noteq> None"
    using that body_error_keeps [of p extractor e pl t copy s dflag _ s1, OF kx kc f] b
    by auto
  have ok: "InstallationComplete \<in> set (out s')" if "rb = None"
    using that body_complete b o2 o' by blast
  have nodel: "is_file (fs s1) p" if "\<not> dflag"
    using that
      keepsD [OF body_keeps_without_delete [of p extractor e pl t copy, OF kx kc] f] b
    by simp
  have "is_file (fs s') p" if "r = Exit 1"
  proof (cases rb)
    case None
    with p0 r that show ?thesis by (auto split: option.splits)
  next
    case (Some x)
    then show ?thesis using err keep by simp
  qed
  moreover have "InstallationComplete \<in> set (out s')" if "\<not> is_file (fs s') p"
    using that err keep ok by blast
  moreover have "is_file (fs s') p" if "\<not> dflag"
    using that nodel keep by blast
  ultimately show ?thesis by blast
qed

section \<open>\<^verbatim>\<open>main\<close> as a whole\<close>

lemma main_reaches_attempt:
  assumes "length rest \<le> 1" and "is_file (fs s) (resolve e a)"
    and "detect (name_of (parts a)) = Inr pl"
    and "mkdtemp (tempdir e) pre (random_names e) (fs s) = (Inr t, n)"
  shows "install_main detect pre extractor copy e (a0 # a # rest) s =
           install_attempt extractor copy e pl (resolve e a) (rest = [''--delete-installer'']) t
             (s\<lparr>fs := n,
                out := out s @ [Banner, InstallerFound (name_of (parts a)), PlatformMsg pl,
                                TempDirectory t]\<rparr>)"
proof -
  have flag: "(length (a0 # a # rest) = 3 \<and> (a0 # a # rest) ! 2 = ''--delete-installer'')
                \<longleftrightarrow> rest = [''--delete-installer'']"
    using assms(1) by (cases rest) auto
  have len: "\<not> (length (a0 # a # rest) < 2 \<or> length (a0 # a # rest) > 3)"
    using assms(1) by simp
  show ?thesis
    unfolding install_main_def Let_def flag if_not_P [OF len]
    using assms(2-4) by (simp add: seq_def say_def)
qed

lemma main_not_found:
  assumes "\<not> is_file (fs s) (resolve e a)"
  shows "fst (install_main detect pre extractor copy e (a0 # a # rest) s) = Exit 1
       \<and> fs (snd (install_main detect pre extractor copy e (a0 # a # rest) s)) = fs s
       \<and> procs (snd (install_main detect pre extractor copy e (a0 # a # rest) s)) = procs s"
  using assms by (simp add: install_main_def Let_def say_def)


lemma main_removes_temp:
  assumes "length rest \<le> 1" and "is_file (fs s) (resolve e a)"
    and "detect (name_of (parts a)) = Inr pl"
    and "mkdtemp (tempdir e) pre (random_names e) (fs s) = (Inr t, n)"
    and "install_main detect pre extractor copy e (a0 # a # rest) s = (r, s')"
  shows "((\<exists>k. r = Exit k) \<longrightarrow> \<not> exists_path (fs s') t)
       \<and> CleaningUp \<in> set (out s')
       \<and> ((\<forall>n. rmtree_failure e t n = None) \<longrightarrow> \<not> is_dir (fs s') t)"
proof -
  have t: "t \<noteq> []" using mkdtemp_result [OF assms(4)] by simp
  show ?thesis
    using attempt_removes_temp [OF t, of extractor copy e pl "resolve e a" _ _ r s']
      main_reaches_attempt [of rest s e a detect pl pre t n extractor copy a0] assms
    by simp
qed

lemma main_keeps_installer:
  assumes kx: "\<And>pl t. keeps (resolve e a) (extractor e pl (resolve e a) t)"
    and kc: "\<And>pl t. keeps (resolve e a) (copy e t pl)"
    and f: "is_file (fs s) (resolve e a)"
    and m: "install_main detect pre extractor copy e (a0 # a # rest) s = (r, s')"
  shows "(r = Exit 1 \<longrightarrow> is_file (fs s') (resolve e a))
       \<and> (\<not> is_file (fs s') (resolve e a) \<longrightarrow> InstallationComplete \<in> set (out s'))
       \<and> (rest \<noteq> [''--delete-installer''] \<longrightarrow> is_file (fs s') (resolve e a))"
proof (cases "length rest \<le> 1")
  case False
  then have "fs s' = fs s" using m by (auto simp: install_main_def say_def)
  then show ?thesis using f by simp
next
  case len: True
  show ?thesis
  proof (cases "detect (name_of (parts a))")
    case (Inl x)
    then have "fs s' = fs s"
      using m f len by (auto simp: install_main_def Let_def say_def seq_def split: exn.splits)
    then show ?thesis using f by simp
  next
    case (Inr pl)
    obtain rt n where mk: "mkdtemp (tempdir e) pre (random_names e) (fs s) = (rt, n)"
      by (cases "mkdtemp (tempdir e) pre (random_names e) (fs s)")
    show ?thesis
    proof (cases rt)
      case (Inl x)
      have "n = fs s" using mk Inl mkdtemp_failure by blast
      then have "fs s' = fs s"
        using m f len Inr mk Inl by (auto simp: install_main_def Let_def say_def seq_def)
      then show ?thesis using f by simp
    next
      case t: (Inr t)
      from mkdtemp_result [of "tempdir e" pre "random_names e" "fs s" t n "resolve e a"]
      have none: "lookup (fs s) t = None" and fn: "is_file n (resolve e a)"
        using mk t f by simp_all
      have np: "\<not> prefix t (resolve e a)" using none f by (rule file_not_below_missing)
      let ?s1 = "s\<lparr>fs := n,
                out := out s @ [Banner, InstallerFound (name_of (parts a)), PlatformMsg pl,
                                TempDirectory t]\<rparr>"
      have a: "install_attempt extractor copy e pl (resolve e a)
                 (rest = [''--delete-installer'']) t ?s1 = (r, s')"
        using main_reaches_attempt [of rest s e a detect pl pre t n extractor copy a0]
          len f Inr mk t m
        by simp
      have f1: "is_file (fs ?s1) (resolve e a)" using fn by simp
      show ?thesis
        using attempt_failure_keeps [of "resolve e a" extractor e pl t copy ?s1
            "rest = [''--delete-installer'']" r s', OF kx kc f1 np a]
        by simp
    qed
  qed
qed

section \<open>The extraction loop\<close>

lemma subprocess_run_checked:
  assumes "subprocess_run e c True s = (r, s')"
  shows "\<exists>oc. procs s' = procs s @ [(c, oc)]
           \<and> (r = None \<longleftrightarrow> oc = Exited 0)
           \<and> ((\<exists>x. r = Some x \<and> caught_by_loop x) \<longleftrightarrow> skipped_by_loop oc)
           \<and> (\<forall>m. r \<noteq> Some (RuntimeError m))"
proof -
  obtain oc n where sp: "spawn e c (fs s) = (oc, n)" by (cases "spawn e c (fs s)")
  show ?thesis
    using assms sp by (cases oc) (auto simp: subprocess_run_def)
qed

lemma try_seven_zip_trace:
  "try_seven_zip e zs p t s = (r, s') \<Longrightarrow>
     \<exists>new. procs s' = procs s @ new
       \<and> prefix (map fst new) (map (\<lambda>z. SevenZipExtract z p t) zs)
       \<and> (r = None \<longleftrightarrow> new \<noteq> [] \<and> snd (last new) = Exited 0)
       \<and> (\<forall>x\<in>set (butlast new). skipped_by_loop (snd x))
       \<and> (r = Some (RuntimeError seven_zip_help)
            \<longleftrightarrow> length new = length zs \<and> (\<forall>x\<in>set new. skipped_by_loop (snd x)))"
proof (induction zs arbitrary: s)
  case Nil
  then show ?case by (auto simp: raise_def)
next
  case (Cons z zs)
  let ?c = "SevenZipExtract z p t"
  obtain r1 s1 where run: "subprocess_run e ?c True s = (r1, s1)"
    by (cases "subprocess_run e ?c True s")
  from subprocess_run_checked [OF run] obtain oc where
    pr: "procs s1 = procs s @ [(?c, oc)]" and
    ok: "r1 = None \<longleftrightarrow> oc = Exited 0" and
    ca: "(\<exists>x. r1 = Some x \<and> caught_by_loop x) \<longleftrightarrow> skipped_by_loop oc" and
    nr: "\<forall>m. r1 \<noteq> Some (RuntimeError m)"
    by blast
  show ?case
  proof (cases r1)
    case None
    then have res: "r = None" and s': "s' = snd (say (Extracted ''7zip'') s1)"
      using Cons.prems run by (simp_all add: say_def)
    have "procs s' = procs s @ [(?c, oc)]" using s' pr by (simp add: say_def)
    moreover have "oc = Exited 0" using ok None by simp
    ultimately show ?thesis using res by (intro exI [of _ "[(?c, oc)]"]) simp
  next
    case (Some x)
    show ?thesis
    proof (cases "caught_by_loop x")
      case False
      then have res: "r = Some x" and s': "s' = s1" using Cons.prems run Some by simp_all
      have nf: "\<not> skipped_by_loop oc" using ca Some False by auto
      have ne: "oc \<noteq> Exited 0" using ok Some by simp
      have "x \<noteq> RuntimeError seven_zip_help" using nr Some by simp
      then show ?thesis
        using res s' pr nf ne by (intro exI [of _ "[(?c, oc)]"]) simp
    next
      case True
      then have rec: "try_seven_zip e zs p t s1 = (r, s')" using Cons.prems run Some by simp
      from Cons.IH [OF rec] obtain new where
        n1: "procs s' = procs s1 @ new" and
        n2: "prefix (map fst new) (map (\<lambda>z. SevenZipExtract z p t) zs)" and
        n3: "r = None \<longleftrightarrow> new \<noteq> [] \<and> snd (last new) = Exited 0" and
        n4: "\<forall>x\<in>set (butlast new). skipped_by_loop (snd x)" and
        n5: "r = Some (RuntimeError seven_zip_help)
               \<longleftrightarrow> length new = length zs \<and> (\<forall>x\<in>set new. skipped_by_loop (snd x))"
        by blast
      have fo: "skipped_by_loop oc" using ca Some True by auto
      then have ne: "oc \<noteq> Exited 0" by auto
      show ?thesis
        using n1 n2 n3 n4 n5 pr fo ne
        by (intro exI [of _ "(?c, oc) # new"]) auto
    qed
  qed
qed

section \<open>Claims\<close>

text \<open>
  C4. For each platform key of either downloader and every version string \<open>v\<close>, the
  substitution of \<open>v\<close> into the platform's file name template gives the literal text of the
  template with \<open>v\<close> in place of the placeholder; version 20312 on windows gives
  \<^verbatim>\<open>fmodstudioapi20312win-installer.exe\<close>.
\<close>

theorem C4_filename_templates:
  "get_fmod_filename ''windows'' v = Inr (''fmodstudioapi'' @ v @ ''win-installer.exe'')
   \<and> get_fmod_filename ''linux'' v = Inr (''fmodstudioapi'' @ v @ ''linux.tar.gz'')
   \<and> get_fmod_filename ''mac'' v = Inr (''fmodstudioapi'' @ v @ ''mac-installer.dmg'')
   \<and> get_raylib_filename ''windows'' v = Inr (''raylib-'' @ v @ ''_win64_msvc16.zip'')
   \<and> get_raylib_filename ''linux'' v = Inr (''raylib-'' @ v @ ''_linux_amd64.tar.gz'')
   \<and> get_raylib_filename ''mac'' v = Inr (''raylib-'' @ v @ ''_macos.tar.gz'')
   \<and> get_fmod_filename ''windows'' ''20312'' = Inr ''fmodstudioapi20312win-installer.exe''"
  by (simp add: get_fmod_filename_def get_raylib_filename_def dl_filename_def
      get_fmod_PLATFORM_CONFIG_def get_raylib_PLATFORM_CONFIG_def)

text \<open>
  C1. On the audio SDK the two file name computations disagree on the platform key of
  macOS: the downloader's table has the key \<^verbatim>\<open>mac\<close>, the orchestrator's
  \<^verbatim>\<open>installer_patterns\<close> has \<^verbatim>\<open>apple\<close>. For \<^verbatim>\<open>mac\<close> the downloader computes a file
  name and the orchestrator raises \<^verbatim>\<open>ValueError\<close>; for \<^verbatim>\<open>apple\<close> the orchestrator
  computes a name and the downloader exits with status 1.
\<close>

theorem C1_fmod_platform_keys_differ:
  "get_fmod_filename ''mac'' ''20312'' = Inr ''fmodstudioapi20312mac-installer.dmg''
   \<and> setup_fmod_installer_name ''mac'' ''20312'' = Inl (ValueError ''Unknown platform: mac'')
   \<and> get_fmod_filename ''apple'' ''20312'' = Inl (SystemExit 1)
   \<and> setup_fmod_installer_name ''apple'' ''20312'' = Inr ''fmodstudioapi20312mac-installer.dmg''"
  by (simp add: get_fmod_filename_def dl_filename_def get_fmod_PLATFORM_CONFIG_def
      setup_fmod_installer_name_def installer_name_of_def setup_fmod_installer_patterns_def)

text \<open>
  The graphics library's orchestrator and downloader do agree: same keys, same names.
\<close>

lemma raylib_installer_name_agrees:
  "setup_raylib_installer_name p v =
     (case get_raylib_filename p v of
        Inl _ \<Rightarrow> Inl (ValueError (''Unknown platform: '' @ p))
      | Inr n \<Rightarrow> Inr n)"
  by (simp add: get_raylib_filename_def dl_filename_def get_raylib_PLATFORM_CONFIG_def
      setup_raylib_installer_name_def installer_name_of_def setup_raylib_installer_patterns_def)

text \<open>When the search for \<^verbatim>\<open>api\<close> finds nothing, the source root is the parent.\<close>

lemma fmod_source_root_fallback:
  "rglob n temp_dir ''api'' = [] \<Longrightarrow> fmod_source_root n temp_dir = parent temp_dir"
  by (simp add: fmod_source_root_def)

text \<open>
  C2. With nothing named \<^verbatim>\<open>api\<close> below the temporary directory, \<^verbatim>\<open>api_dirs\<close> becomes the
  list holding the temporary directory and the source root is the parent of its first
  element: the directory that contains the temporary directory, not the temporary
  directory. With a directory \<^verbatim>\<open>api/core/inc\<close> beside the temporary directory, the copy
  step finds the core headers there and copies them.
\<close>

theorem C2_source_root_is_parent_of_temp:
  "rglob example_workspace [''tmp'', ''temp_fmod_install_a1b2c3d4''] ''api'' = []
   \<and> fmod_source_root example_workspace [''tmp'', ''temp_fmod_install_a1b2c3d4''] = [''tmp'']
   \<and> rglob example_stray [''tmp'', ''temp_fmod_install_a1b2c3d4''] ''api'' = []
   \<and> out (snd (fmod_copy_api_files example_env [''tmp'', ''temp_fmod_install_a1b2c3d4'']
                  ''linux'' (start example_stray)))
       = [Copying, Copied ''core headers'' 0, NotFoundWarning ''core libraries'',
          NotFoundWarning ''studio headers'', NotFoundWarning ''studio libraries'',
          CopyingPlugins 1,
          PluginMissing ''resonanceaudio.so'' ''plugins/resonance_audio/lib/resonanceaudio.so'',
          PluginsCopied 0 1]"
  by code_simp

text \<open>
  C3. On an empty extraction workspace the copy step of the graphics library installer
  raises: both searches find nothing, the source becomes the string \<^verbatim>\<open>""\<close>, and
  \<^verbatim>\<open>src.exists()\<close> is an \<^verbatim>\<open>AttributeError\<close>. No warning is printed, and \<^verbatim>\<open>main\<close> exits
  with status 1.
\<close>

theorem C3_raylib_empty_workspace_raises:
  "rglob example_workspace [''tmp'', ''temp_raylib_install_a1b2c3d4''] ''include'' = []
   \<and> rglob example_workspace [''tmp'', ''temp_raylib_install_a1b2c3d4''] ''lib'' = []
   \<and> raylib_copy_api_files example_env [''tmp'', ''temp_raylib_install_a1b2c3d4''] ''windows''
         (start example_workspace)
       = (Some (AttributeError ''str object has no attribute exists''),
          \<lparr>fs = example_workspace, out = [Copying], procs = []\<rparr>)
   \<and> raylib_main example_env [''install_raylib.py'', ''raylib-5.5_win64_msvc16.zip'']
         (start example_fs)
       = (Exit 1,
          \<lparr>fs = example_fs,
           out = [Banner, InstallerFound ''raylib-5.5_win64_msvc16.zip'', PlatformMsg ''windows'',
                  TempDirectory [''tmp'', ''temp_raylib_install_a1b2c3d4''],
                  Extracting ''archive'', Extracted ''archive'', Copying,
                  ErrorMsg (AttributeError ''str object has no attribute exists''),
                  CleaningUp, TempRemoved],
           procs = []\<rparr>)"
  by code_simp

text \<open>Two suffixes of one string end in the same character.\<close>

lemma suffix_same_last: "suffix (xs @ [a]) n \<Longrightarrow> suffix (ys @ [b]) n \<Longrightarrow> a = b"
  by (auto simp: suffix_def)

lemma extensions_exclusive:
  "\<not> (endswith n ''.exe'' \<and> endswith n ''.tar.gz'')"
  "\<not> (endswith n ''.exe'' \<and> endswith n ''.dmg'')"
  "\<not> (endswith n ''.tar.gz'' \<and> endswith n ''.dmg'')"
  "\<not> (endswith n ''.zip'' \<and> endswith n ''.tar.gz'')"
  "\<not> (endswith n ''.exe'' \<and> endswith n ''.zip'')"
  "\<not> (endswith n ''.zip'' \<and> endswith n ''.dmg'')"
  using suffix_same_last [of "''.ex''" "CHR ''e''" n "''.tar.g''" "CHR ''z''"]
        suffix_same_last [of "''.ex''" "CHR ''e''" n "''.dm''" "CHR ''g''"]
        suffix_same_last [of "''.tar.g''" "CHR ''z''" n "''.dm''" "CHR ''g''"]
        suffix_same_last [of "''.zi''" "CHR ''p''" n "''.tar.g''" "CHR ''z''"]
        suffix_same_last [of "''.ex''" "CHR ''e''" n "''.zi''" "CHR ''p''"]
        suffix_same_last [of "''.zi''" "CHR ''p''" n "''.dm''" "CHR ''g''"]
  by (auto simp: endswith_def)

text \<open>
  C5, as the claim states it, fails on the graphics library: a name that contains
  \<^verbatim>\<open>macos\<close> and ends in \<^verbatim>\<open>.tar.gz\<close> is detected as linux when it also contains
  \<^verbatim>\<open>linux\<close>, because the linux branch is tested first.
\<close>

theorem C5_macos_linux_counterexample:
  "str_in ''macos'' (lower ''raylib-5.5_macos_linux.tar.gz'')
   \<and> endswith (lower ''raylib-5.5_macos_linux.tar.gz'') ''.tar.gz''
   \<and> raylib_detect_platform ''raylib-5.5_macos_linux.tar.gz'' = Inr ''linux''
   \<and> raylib_detect_platform ''raylib-5.5_macos_linux.tar.gz'' \<noteq> Inr ''mac''"
  by code_simp

text \<open>
  C5, amended. With \<open>n\<close> the lower-cased file name: the audio SDK installer returns
  windows exactly when \<open>n\<close> contains \<^verbatim>\<open>win\<close> and ends in \<^verbatim>\<open>.exe\<close>, linux exactly for
  \<^verbatim>\<open>linux\<close> with \<^verbatim>\<open>.tar.gz\<close>, mac exactly for \<^verbatim>\<open>mac\<close> with \<^verbatim>\<open>.dmg\<close>, and raises the
  detection error exactly when none of the three holds, so in particular for a name with
  \<^verbatim>\<open>win\<close> that ends in \<^verbatim>\<open>.zip\<close>. The graphics library installer returns windows exactly
  for \<^verbatim>\<open>win\<close> with \<^verbatim>\<open>.zip\<close>, linux exactly for \<^verbatim>\<open>linux\<close> with \<^verbatim>\<open>.tar.gz\<close>, mac exactly
  for \<^verbatim>\<open>macos\<close> with \<^verbatim>\<open>.tar.gz\<close> and no \<^verbatim>\<open>linux\<close>, and raises the detection error
  exactly when none of its three combinations holds.
\<close>

theorem C5_detect_platform:
  "(let n = lower path_name;
        err = Inl (ValueError (''Cannot detect platform from installer: '' @ path_name))
    in
     (fmod_detect_platform path_name = Inr ''windows''
        \<longleftrightarrow> str_in ''win'' n \<and> endswith n ''.exe'')
   \<and> (fmod_detect_platform path_name = Inr ''linux''
        \<longleftrightarrow> str_in ''linux'' n \<and> endswith n ''.tar.gz'')
   \<and> (fmod_detect_platform path_name = Inr ''mac''
        \<longleftrightarrow> str_in ''mac'' n \<and> endswith n ''.dmg'')
   \<and> (fmod_detect_platform path_name = err
        \<longleftrightarrow> \<not> (str_in ''win'' n \<and> endswith n ''.exe'')
          \<and> \<not> (str_in ''linux'' n \<and> endswith n ''.tar.gz'')
          \<and> \<not> (str_in ''mac'' n \<and> endswith n ''.dmg''))
   \<and> (str_in ''win'' n \<and> endswith n ''.zip'' \<longrightarrow> fmod_detect_platform path_name = err)
   \<and> (raylib_detect_platform path_name = Inr ''windows''
        \<longleftrightarrow> str_in ''win'' n \<and> endswith n ''.zip'')
   \<and> (raylib_detect_platform path_name = Inr ''linux''
        \<longleftrightarrow> str_in ''linux'' n \<and> endswith n ''.tar.gz'')
   \<and> (raylib_detect_platform path_name = Inr ''mac''
        \<longleftrightarrow> str_in ''macos'' n \<and> endswith n ''.tar.gz'' \<and> \<not> str_in ''linux'' n)
   \<and> (raylib_detect_platform path_name = err
        \<longleftrightarrow> \<not> (str_in ''win'' n \<and> endswith n ''.zip'')
          \<and> \<not> (str_in ''linux'' n \<and> endswith n ''.tar.gz'')
          \<and> \<not> (str_in ''macos'' n \<and> endswith n ''.tar.gz'')))"
  using extensions_exclusive [of "lower path_name"]
  unfolding fmod_detect_platform_def raylib_detect_platform_def Let_def
  by auto

theorem C5_detect_platform_witness:
  "str_in ''win'' (lower ''fmod_win.zip'') \<and> endswith (lower ''fmod_win.zip'') ''.zip''
   \<and> fmod_detect_platform ''fmod_win.zip''
       = Inl (ValueError ''Cannot detect platform from installer: fmod_win.zip'')
   \<and> fmod_detect_platform ''fmodstudioapi20312win-installer.exe'' = Inr ''windows''
   \<and> raylib_detect_platform ''raylib-5.5_macos.tar.gz'' = Inr ''mac''"
proof -
  have zip: "str_in ''win'' (lower ''fmod_win.zip'') \<and> endswith (lower ''fmod_win.zip'') ''.zip''"
    by code_simp
  have exe: "str_in ''win'' (lower ''fmodstudioapi20312win-installer.exe'')
             \<and> endswith (lower ''fmodstudioapi20312win-installer.exe'') ''.exe''"
    by code_simp
  have mac: "str_in ''macos'' (lower ''raylib-5.5_macos.tar.gz'')
             \<and> endswith (lower ''raylib-5.5_macos.tar.gz'') ''.tar.gz''
             \<and> \<not> str_in ''linux'' (lower ''raylib-5.5_macos.tar.gz'')"
    by code_simp
  show ?thesis
    using zip exe mac
      C5_detect_platform [of "''fmod_win.zip''"]
      C5_detect_platform [of "''fmodstudioapi20312win-installer.exe''"]
      C5_detect_platform [of "''raylib-5.5_macos.tar.gz''"]
    unfolding Let_def by simp
qed

text \<open>The concrete environment's tools change nothing, so they keep every file.\<close>

lemma example_env_keeps: "env_keeps_file example_env p"
  by (simp add: env_keeps_file_def example_env_def)

text \<open>
  C6, as the claim states it, fails when \<^verbatim>\<open>shutil.rmtree\<close> itself cannot delete the
  directory: the \<^verbatim>\<open>finally\<close> clause calls it with \<^verbatim>\<open>ignore_errors=False\<close>, its exception
  leaves \<^verbatim>\<open>main\<close> uncaught, and the temporary directory is still there. This happens after a
  failed extraction (the Windows installer with no 7-Zip) and after a successful
  installation (the Linux archive) alike.
\<close>

theorem C6_rmtree_failure_counterexample:
  "fmod_main example_env_locked
     [''install_fmod_api.py'', ''fmodstudioapi20312win-installer.exe''] (start example_fs)
     = (Uncaught (OSError ''Permission denied''),
        \<lparr>fs = Dir [(''tmp'', Dir [(''temp_fmod_install_a1b2c3d4'', Dir [])]),
                   (''proj'', example_tools)],
         out = [Banner, InstallerFound ''fmodstudioapi20312win-installer.exe'',
                PlatformMsg ''windows'', TempDirectory [''tmp'', ''temp_fmod_install_a1b2c3d4''],
                Extracting ''Windows installer'', ErrorMsg (RuntimeError seven_zip_help),
                CleaningUp],
         procs = map (\<lambda>z. (SevenZipExtract z
                               [''proj'', ''tools'', ''fmodstudioapi20312win-installer.exe'']
                               [''tmp'', ''temp_fmod_install_a1b2c3d4''], NotFound))
                   seven_zip_paths\<rparr>)
   \<and> is_dir (fs (snd (fmod_main example_env_locked
                 [''install_fmod_api.py'', ''fmodstudioapi20312win-installer.exe'']
                 (start example_fs))))
        [''tmp'', ''temp_fmod_install_a1b2c3d4'']
   \<and> fst (fmod_main example_env_locked
             [''install_fmod_api.py'', ''fmodstudioapi20312linux.tar.gz''] (start example_fs))
     = Uncaught (OSError ''Permission denied'')
   \<and> InstallationComplete
       \<in> set (out (snd (fmod_main example_env_locked
             [''install_fmod_api.py'', ''fmodstudioapi20312linux.tar.gz''] (start example_fs))))
   \<and> is_dir (fs (snd (fmod_main example_env_locked
                 [''install_fmod_api.py'', ''fmodstudioapi20312linux.tar.gz'']
                 (start example_fs))))
        [''tmp'', ''temp_fmod_install_a1b2c3d4'']"
  by code_simp

text \<open>
  C6, amended. A run of either installer that reaches the extraction phase (one or two
  arguments, an existing installer, a detected platform and a temporary directory \<open>t\<close>
  created by \<^verbatim>\<open>mkdtemp\<close>) enters the \<^verbatim>\<open>finally\<close> clause on every path, where it calls
  \<^verbatim>\<open>shutil.rmtree\<close> on \<open>t\<close>. Whenever the script then ends with an exit status, 0 on
  success or 1 after a handled error, nothing exists at \<open>t\<close>. In an environment where the
  removal of a tree never gets stuck, no directory is left at \<open>t\<close> however the script
  ends.
\<close>

theorem C6_temp_dir_removed:
  "(length rest \<le> 1 \<and> is_file (fs s) (resolve e a) \<and> out s = []
      \<and> fmod_detect_platform (name_of (parts a)) = Inr pl
      \<and> mkdtemp (tempdir e) ''temp_fmod_install_'' (random_names e) (fs s) = (Inr t, n)
    \<longrightarrow> ((\<exists>k. fst (fmod_main e (a0 # a # rest) s) = Exit k)
           \<longrightarrow> \<not> exists_path (fs (snd (fmod_main e (a0 # a # rest) s))) t)
      \<and> CleaningUp \<in> set (out (snd (fmod_main e (a0 # a # rest) s)))
      \<and> ((\<forall>n. rmtree_failure e t n = None)
           \<longrightarrow> \<not> is_dir (fs (snd (fmod_main e (a0 # a # rest) s))) t))
   \<and> (length rest \<le> 1 \<and> is_file (fs s) (resolve e a) \<and> out s = []
      \<and> raylib_detect_platform (name_of (parts a)) = Inr pl
      \<and> mkdtemp (tempdir e) ''temp_raylib_install_'' (random_names e) (fs s) = (Inr t, n)
    \<longrightarrow> ((\<exists>k. fst (raylib_main e (a0 # a # rest) s) = Exit k)
           \<longrightarrow> \<not> exists_path (fs (snd (raylib_main e (a0 # a # rest) s))) t)
      \<and> CleaningUp \<in> set (out (snd (raylib_main e (a0 # a # rest) s)))
      \<and> ((\<forall>n. rmtree_failure e t n = None)
           \<longrightarrow> \<not> is_dir (fs (snd (raylib_main e (a0 # a # rest) s))) t))"
proof -
  have gen: "((\<exists>k. fst (install_main detect pre extractor copy e (a0 # a # rest) s) = Exit k)
           \<longrightarrow> \<not> exists_path (fs (snd (install_main detect pre extractor copy e
                                          (a0 # a # rest) s))) t)
      \<and> CleaningUp \<in> set (out (snd (install_main detect pre extractor copy e (a0 # a # rest) s)))
      \<and> ((\<forall>n. rmtree_failure e t n = None)
           \<longrightarrow> \<not> is_dir (fs (snd (install_main detect pre extractor copy e
                                       (a0 # a # rest) s))) t)"
    if "length rest \<le> 1" "is_file (fs s) (resolve e a)"
      "detect (name_of (parts a)) = Inr pl"
      "mkdtemp (tempdir e) pre (random_names e) (fs s) = (Inr t, n)"
    for detect pre extractor copy
    using main_removes_temp [of rest s e a detect pl pre t n extractor copy a0
        "fst (install_main detect pre extractor copy e (a0 # a # rest) s)"
        "snd (install_main detect pre extractor copy e (a0 # a # rest) s)"] that
    by simp
  show ?thesis
    unfolding fmod_main_def raylib_main_def using gen by blast
qed

text \<open>
  The witness of C6: the Windows installer of the audio SDK with no 7-Zip installed, an
  error path, in the environment where the removal never gets stuck; the script exits with
  status 1 and the temporary directory is gone.
\<close>

theorem C6_temp_dir_removed_witness:
  "is_file (fs (start example_fs)) (resolve example_env ''fmodstudioapi20312win-installer.exe'')
   \<and> out (start example_fs) = []
   \<and> fmod_detect_platform (name_of (parts ''fmodstudioapi20312win-installer.exe'')) = Inr ''windows''
   \<and> mkdtemp (tempdir example_env) ''temp_fmod_install_'' (random_names example_env)
        (fs (start example_fs))
       = (Inr [''tmp'', ''temp_fmod_install_a1b2c3d4''],
          Dir [(''tmp'', Dir [(''temp_fmod_install_a1b2c3d4'', Dir [])]), (''proj'', example_tools)])
   \<and> (\<forall>n. rmtree_failure example_env [''tmp'', ''temp_fmod_install_a1b2c3d4''] n = None)
   \<and> fst (fmod_main example_env [''install_fmod_api.py'', ''fmodstudioapi20312win-installer.exe'']
             (start example_fs)) = Exit 1
   \<and> \<not> exists_path
         (fs (snd (fmod_main example_env
                    [''install_fmod_api.py'', ''fmodstudioapi20312win-installer.exe'']
                    (start example_fs))))
         [''tmp'', ''temp_fmod_install_a1b2c3d4'']
   \<and> \<not> is_dir
         (fs (snd (fmod_main example_env
                    [''install_fmod_api.py'', ''fmodstudioapi20312win-installer.exe'']
                    (start example_fs))))
         [''tmp'', ''temp_fmod_install_a1b2c3d4'']
   \<and> CleaningUp
       \<in> set (out (snd (fmod_main example_env
                    [''install_fmod_api.py'', ''fmodstudioapi20312win-installer.exe'']
                    (start example_fs))))"
proof -
  have f: "is_file (fs (start example_fs))
             (resolve example_env ''fmodstudioapi20312win-installer.exe'')"
    by code_simp
  have o: "out (start example_fs) = []" by (simp add: start_def)
  have d: "fmod_detect_platform (name_of (parts ''fmodstudioapi20312win-installer.exe''))
             = Inr ''windows''"
    by code_simp
  have m: "mkdtemp (tempdir example_env) ''temp_fmod_install_'' (random_names example_env)
             (fs (start example_fs))
           = (Inr [''tmp'', ''temp_fmod_install_a1b2c3d4''],
              Dir [(''tmp'', Dir [(''temp_fmod_install_a1b2c3d4'', Dir [])]),
                   (''proj'', example_tools)])"
    by code_simp
  have g: "\<forall>n. rmtree_failure example_env [''tmp'', ''temp_fmod_install_a1b2c3d4''] n = None"
    by (simp add: example_env_def)
  have x: "fst (fmod_main example_env
                  [''install_fmod_api.py'', ''fmodstudioapi20312win-installer.exe'']
                  (start example_fs)) = Exit 1"
    by code_simp
  show ?thesis
    using f o d m g x
      C6_temp_dir_removed [of "[]" "start example_fs" example_env
        "''fmodstudioapi20312win-installer.exe''" "''windows''"
        "[''tmp'', ''temp_fmod_install_a1b2c3d4'']"
        "Dir [(''tmp'', Dir [(''temp_fmod_install_a1b2c3d4'', Dir [])]), (''proj'', example_tools)]"
        "''install_fmod_api.py''"]
    by simp
qed

text \<open>
  C7. With \<^verbatim>\<open>--delete-installer\<close>, in an environment whose tools leave the installer in
  place, and starting with the installer present and nothing printed yet: when either
  script exits with status 1 (the installer was not detected, or extraction or a copy
  failed) the installer is still a file; and whenever the installer is no longer a file
  at the end, the message that reports the completed installation, which follows the
  extraction and every copy step, has been printed.
\<close>

theorem C7_installer_kept_on_failure:
  "(env_keeps_file e (resolve e a) \<and> is_file (fs s) (resolve e a) \<and> out s = []
    \<longrightarrow> (fst (fmod_main e [a0, a, ''--delete-installer''] s) = Exit 1
           \<longrightarrow> is_file (fs (snd (fmod_main e [a0, a, ''--delete-installer''] s))) (resolve e a))
      \<and> (\<not> is_file (fs (snd (fmod_main e [a0, a, ''--delete-installer''] s))) (resolve e a)
           \<longrightarrow> InstallationComplete
                 \<in> set (out (snd (fmod_main e [a0, a, ''--delete-installer''] s)))))
   \<and> (env_keeps_file e (resolve e a) \<and> is_file (fs s) (resolve e a) \<and> out s = []
    \<longrightarrow> (fst (raylib_main e [a0, a, ''--delete-installer''] s) = Exit 1
           \<longrightarrow> is_file (fs (snd (raylib_main e [a0, a, ''--delete-installer''] s))) (resolve e a))
      \<and> (\<not> is_file (fs (snd (raylib_main e [a0, a, ''--delete-installer''] s))) (resolve e a)
           \<longrightarrow> InstallationComplete
                 \<in> set (out (snd (raylib_main e [a0, a, ''--delete-installer''] s)))))"
proof -
  have gen: "(fst (install_main detect pre extractor copy e (a0 # a # rest) s) = Exit 1
           \<longrightarrow> is_file (fs (snd (install_main detect pre extractor copy e (a0 # a # rest) s)))
                 (resolve e a))
      \<and> (\<not> is_file (fs (snd (install_main detect pre extractor copy e (a0 # a # rest) s)))
             (resolve e a)
           \<longrightarrow> InstallationComplete
                 \<in> set (out (snd (install_main detect pre extractor copy e (a0 # a # rest) s))))"
    if kx: "\<And>pl t. keeps (resolve e a) (extractor e pl (resolve e a) t)"
      and kc: "\<And>pl t. keeps (resolve e a) (copy e t pl)"
      and f: "is_file (fs s) (resolve e a)"
    for detect pre extractor copy rest
    using main_keeps_installer [of e a extractor copy s detect pre a0 rest
        "fst (install_main detect pre extractor copy e (a0 # a # rest) s)"
        "snd (install_main detect pre extractor copy e (a0 # a # rest) s)", OF kx kc f]
    by simp
  have fmod: "(fst (fmod_main e [a0, a, ''--delete-installer''] s) = Exit 1
           \<longrightarrow> is_file (fs (snd (fmod_main e [a0, a, ''--delete-installer''] s))) (resolve e a))
      \<and> (\<not> is_file (fs (snd (fmod_main e [a0, a, ''--delete-installer''] s))) (resolve e a)
           \<longrightarrow> InstallationComplete
                 \<in> set (out (snd (fmod_main e [a0, a, ''--delete-installer''] s))))"
    if k: "env_keeps_file e (resolve e a)" and f: "is_file (fs s) (resolve e a)"
    unfolding fmod_main_def
    using gen [of fmod_extract fmod_copy_api_files fmod_detect_platform "''temp_fmod_install_''"
        "[''--delete-installer'']", OF keeps_fmod_extract [OF k] keeps_fmod_copy_api_files [OF k] f]
    by simp
  have raylib: "(fst (raylib_main e [a0, a, ''--delete-installer''] s) = Exit 1
           \<longrightarrow> is_file (fs (snd (raylib_main e [a0, a, ''--delete-installer''] s))) (resolve e a))
      \<and> (\<not> is_file (fs (snd (raylib_main e [a0, a, ''--delete-installer''] s))) (resolve e a)
           \<longrightarrow> InstallationComplete
                 \<in> set (out (snd (raylib_main e [a0, a, ''--delete-installer''] s))))"
    if k: "env_keeps_file e (resolve e a)" and f: "is_file (fs s) (resolve e a)"
    unfolding raylib_main_def
    using gen [of raylib_extract raylib_copy_api_files raylib_detect_platform
        "''temp_raylib_install_''" "[''--delete-installer'']",
        OF keeps_raylib_extract [OF k] keeps_raylib_copy_api_files [OF k] f]
    by simp
  show ?thesis using fmod raylib by blast
qed

text \<open>
  The witness of C7: extraction of the Windows installer fails for want of 7-Zip, the
  script exits with status 1 and the installer is still there.
\<close>

theorem C7_installer_kept_on_failure_witness:
  "env_keeps_file example_env (resolve example_env ''fmodstudioapi20312win-installer.exe'')
   \<and> is_file (fs (start example_fs)) (resolve example_env ''fmodstudioapi20312win-installer.exe'')
   \<and> out (start example_fs) = []
   \<and> fst (fmod_main example_env
             [''install_fmod_api.py'', ''fmodstudioapi20312win-installer.exe'', ''--delete-installer'']
             (start example_fs)) = Exit 1
   \<and> is_file (fs (snd (fmod_main example_env
             [''install_fmod_api.py'', ''fmodstudioapi20312win-installer.exe'', ''--delete-installer'']
             (start example_fs))))
         (resolve example_env ''fmodstudioapi20312win-installer.exe'')"
proof -
  have k: "env_keeps_file example_env
             (resolve example_env ''fmodstudioapi20312win-installer.exe'')"
    by (rule example_env_keeps)
  have f: "is_file (fs (start example_fs))
             (resolve example_env ''fmodstudioapi20312win-installer.exe'')"
    by code_simp
  have o: "out (start example_fs) = []" by (simp add: start_def)
  have x: "fst (fmod_main example_env
             [''install_fmod_api.py'', ''fmodstudioapi20312win-installer.exe'', ''--delete-installer'']
             (start example_fs)) = Exit 1"
    by code_simp
  show ?thesis
    using k f o x
      C7_installer_kept_on_failure [of example_env "''fmodstudioapi20312win-installer.exe''"
        "start example_fs" "''install_fmod_api.py''"]
    by blast
qed

text \<open>
  C8, as the claim states it, fails when a candidate is installed and cannot be started:
  \<^verbatim>\<open>subprocess.run\<close> then raises an exception the loop does not catch (here
  \<^verbatim>\<open>PermissionError\<close>, an \<^verbatim>\<open>OSError\<close>). In an environment where that happens to every
  candidate, every candidate fails, yet only the first one is tried and the exception that
  leaves \<^verbatim>\<open>extract_windows_exe\<close> is not the error that names 7-Zip.
\<close>

theorem C8_unstartable_candidate_counterexample:
  "fst (spawn example_env_blocked
          (SevenZipExtract (seven_zip_paths ! 0)
             [''proj'', ''tools'', ''fmodstudioapi20312win-installer.exe'']
             [''tmp'', ''temp_fmod_install_a1b2c3d4'']) example_workspace)
     = SpawnFailed ''Permission denied''
   \<and> fst (spawn example_env_blocked
          (SevenZipExtract (seven_zip_paths ! 1)
             [''proj'', ''tools'', ''fmodstudioapi20312win-installer.exe'']
             [''tmp'', ''temp_fmod_install_a1b2c3d4'']) example_workspace)
     = SpawnFailed ''Permission denied''
   \<and> fst (spawn example_env_blocked
          (SevenZipExtract (seven_zip_paths ! 2)
             [''proj'', ''tools'', ''fmodstudioapi20312win-installer.exe'']
             [''tmp'', ''temp_fmod_install_a1b2c3d4'']) example_workspace)
     = SpawnFailed ''Permission denied''
   \<and> extract_windows_exe example_env_blocked
         [''proj'', ''tools'', ''fmodstudioapi20312win-installer.exe'']
         [''tmp'', ''temp_fmod_install_a1b2c3d4''] (start example_workspace)
     = (Some (OSError ''Permission denied''),
        \<lparr>fs = example_workspace, out = [Extracting ''Windows installer''],
         procs = [(SevenZipExtract ''7z''
                     [''proj'', ''tools'', ''fmodstudioapi20312win-installer.exe'']
                     [''tmp'', ''temp_fmod_install_a1b2c3d4''],
                   SpawnFailed ''Permission denied'')]\<rparr>)
   \<and> fst (extract_windows_exe example_env_blocked
         [''proj'', ''tools'', ''fmodstudioapi20312win-installer.exe'']
         [''tmp'', ''temp_fmod_install_a1b2c3d4''] (start example_workspace))
     \<noteq> Some (RuntimeError seven_zip_help)"
  by code_simp

text \<open>
  C8, amended. Let \<open>o1\<close>, \<open>o2\<close>, \<open>o3\<close> be the outcomes of the three candidate commands,
  \<^verbatim>\<open>7z\<close> on the search path and then the two fixed install paths, each run on the file
  system the one before it left. A candidate is skipped when it is absent or exits with a
  non-zero status. \<^verbatim>\<open>extract_windows_exe\<close> starts the first candidate, and each further one
  exactly when all before it were skipped, so nothing is started after a candidate that was
  not skipped. It returns normally exactly when the first candidate that is not skipped
  exits with status 0. It raises the error that names 7-Zip with the install instructions
  exactly when all three candidates are skipped. When the first candidate that is not
  skipped cannot be started, that exception is raised instead and the remaining candidates
  are not tried.
\<close>

theorem C8_extract_windows_exe:
  "(case spawn e (SevenZipExtract (seven_zip_paths ! 0) p t) (fs s) of (o1, n1) \<Rightarrow>
    case spawn e (SevenZipExtract (seven_zip_paths ! 1) p t) n1 of (o2, n2) \<Rightarrow>
    case spawn e (SevenZipExtract (seven_zip_paths ! 2) p t) n2 of (o3, n3) \<Rightarrow>
      let r = fst (extract_windows_exe e p t s);
          s' = snd (extract_windows_exe e p t s)
      in length seven_zip_paths = 3 \<and> seven_zip_paths ! 0 = ''7z''
       \<and> procs s' = procs s @
            (SevenZipExtract (seven_zip_paths ! 0) p t, o1) #
            (if skipped_by_loop o1
             then (SevenZipExtract (seven_zip_paths ! 1) p t, o2) #
                  (if skipped_by_loop o2
                   then [(SevenZipExtract (seven_zip_paths ! 2) p t, o3)] else [])
             else [])
       \<and> fs s' = (if skipped_by_loop o1 then if skipped_by_loop o2 then n3 else n2 else n1)
       \<and> (r = None \<longleftrightarrow>
            o1 = Exited 0 \<or> (skipped_by_loop o1 \<and> o2 = Exited 0)
            \<or> (skipped_by_loop o1 \<and> skipped_by_loop o2 \<and> o3 = Exited 0))
       \<and> (r = Some (RuntimeError seven_zip_help) \<longleftrightarrow>
            skipped_by_loop o1 \<and> skipped_by_loop o2 \<and> skipped_by_loop o3)
       \<and> (\<forall>m. o1 = SpawnFailed m \<or> (skipped_by_loop o1 \<and> o2 = SpawnFailed m)
                \<or> (skipped_by_loop o1 \<and> skipped_by_loop o2 \<and> o3 = SpawnFailed m)
              \<longrightarrow> r = Some (OSError m))
       \<and> str_in ''7-Zip'' seven_zip_help
       \<and> str_in ''https://www.7-zip.org/download.html'' seven_zip_help
       \<and> str_in ''winget install -e --id 7zip.7zip'' seven_zip_help)"
proof -
  obtain z1 z2 z3 where zs: "seven_zip_paths = [z1, z2, z3]" and z1: "z1 = ''7z''"
    by (simp add: seven_zip_paths_def)
  obtain o1 n1 where s1: "spawn e (SevenZipExtract z1 p t) (fs s) = (o1, n1)"
    by (cases "spawn e (SevenZipExtract z1 p t) (fs s)")
  obtain o2 n2 where s2: "spawn e (SevenZipExtract z2 p t) n1 = (o2, n2)"
    by (cases "spawn e (SevenZipExtract z2 p t) n1")
  obtain o3 n3 where s3: "spawn e (SevenZipExtract z3 p t) n2 = (o3, n3)"
    by (cases "spawn e (SevenZipExtract z3 p t) n2")
  have h: "str_in ''7-Zip'' seven_zip_help
     \<and> str_in ''https://www.7-zip.org/download.html'' seven_zip_help
     \<and> str_in ''winget install -e --id 7zip.7zip'' seven_zip_help"
    by code_simp
  have run: "extract_windows_exe e p t s =
     (if o1 = Exited 0 then
        (None, s\<lparr>fs := n1, out := out s @ [Extracting ''Windows installer'', Extracted ''7zip''],
                 procs := procs s @ [(SevenZipExtract z1 p t, o1)]\<rparr>)
      else if \<not> skipped_by_loop o1 then
        (Some (case o1 of SpawnFailed m \<Rightarrow> OSError m | _ \<Rightarrow> FileNotFoundError),
         s\<lparr>fs := n1, out := out s @ [Extracting ''Windows installer''],
           procs := procs s @ [(SevenZipExtract z1 p t, o1)]\<rparr>)
      else if o2 = Exited 0 then
        (None, s\<lparr>fs := n2, out := out s @ [Extracting ''Windows installer'', Extracted ''7zip''],
                 procs := procs s @ [(SevenZipExtract z1 p t, o1), (SevenZipExtract z2 p t, o2)]\<rparr>)
      else if \<not> skipped_by_loop o2 then
        (Some (case o2 of SpawnFailed m \<Rightarrow> OSError m | _ \<Rightarrow> FileNotFoundError),
         s\<lparr>fs := n2, out := out s @ [Extracting ''Windows installer''],
           procs := procs s @ [(SevenZipExtract z1 p t, o1), (SevenZipExtract z2 p t, o2)]\<rparr>)
      else if o3 = Exited 0 then
        (None, s\<lparr>fs := n3, out := out s @ [Extracting ''Windows installer'', Extracted ''7zip''],
                 procs := procs s @ [(SevenZipExtract z1 p t, o1), (SevenZipExtract z2 p t, o2),
                                     (SevenZipExtract z3 p t, o3)]\<rparr>)
      else if \<not> skipped_by_loop o3 then
        (Some (case o3 of SpawnFailed m \<Rightarrow> OSError m | _ \<Rightarrow> FileNotFoundError),
         s\<lparr>fs := n3, out := out s @ [Extracting ''Windows installer''],
           procs := procs s @ [(SevenZipExtract z1 p t, o1), (SevenZipExtract z2 p t, o2),
                               (SevenZipExtract z3 p t, o3)]\<rparr>)
      else
        (Some (RuntimeError seven_zip_help),
         s\<lparr>fs := n3, out := out s @ [Extracting ''Windows installer''],
           procs := procs s @ [(SevenZipExtract z1 p t, o1), (SevenZipExtract z2 p t, o2),
                               (SevenZipExtract z3 p t, o3)]\<rparr>))"
    unfolding extract_windows_exe_def zs
    using s1 s2 s3
    by (cases o1; cases o2; cases o3)
       (simp_all add: seq_def say_def raise_def subprocess_run_def)
  show ?thesis
    unfolding zs Let_def using s1 s2 s3 h z1
    by (cases o1; cases o2; cases o3) (simp_all add: run)
qed

text \<open>
  The witness of C8: with no 7-Zip anywhere all three candidates are skipped and the error
  is raised; with 7-Zip at the fixed paths only, the first candidate is skipped, the second
  succeeds and the third is never started.
\<close>

theorem C8_extract_windows_exe_witness:
  "procs (snd (extract_windows_exe example_env
                 [''proj'', ''tools'', ''fmodstudioapi20312win-installer.exe'']
                 [''tmp'', ''temp_fmod_install_a1b2c3d4''] (start example_workspace)))
     = map (\<lambda>z. (SevenZipExtract z [''proj'', ''tools'', ''fmodstudioapi20312win-installer.exe'']
                     [''tmp'', ''temp_fmod_install_a1b2c3d4''], NotFound)) seven_zip_paths
   \<and> fst (extract_windows_exe example_env
             [''proj'', ''tools'', ''fmodstudioapi20312win-installer.exe'']
             [''tmp'', ''temp_fmod_install_a1b2c3d4''] (start example_workspace))
     = Some (RuntimeError seven_zip_help)
   \<and> map snd (procs (snd (extract_windows_exe example_env_7z
                 [''proj'', ''tools'', ''fmodstudioapi20312win-installer.exe'']
                 [''tmp'', ''temp_fmod_install_a1b2c3d4''] (start example_workspace))))
     = [NotFound, Exited 0]
   \<and> fst (extract_windows_exe example_env_7z
             [''proj'', ''tools'', ''fmodstudioapi20312win-installer.exe'']
             [''tmp'', ''temp_fmod_install_a1b2c3d4''] (start example_workspace))
     = None"
proof -
  let ?p = "[''proj'', ''tools'', ''fmodstudioapi20312win-installer.exe'']"
  let ?t = "[''tmp'', ''temp_fmod_install_a1b2c3d4'']"
  have p0: "procs (start example_workspace) = []" by (simp add: start_def)
  have l: "seven_zip_paths = [seven_zip_paths ! 0, seven_zip_paths ! 1, seven_zip_paths ! 2]"
    by (simp add: seven_zip_paths_def)
  have e1: "spawn example_env c n = (NotFound, n)" for c n
    by (simp add: example_env_def)
  have z: "seven_zip_paths ! 0 = ''7z'' \<and> seven_zip_paths ! 1 \<noteq> ''7z''"
    by (simp add: seven_zip_paths_def)
  have e2: "spawn example_env_7z (SevenZipExtract (seven_zip_paths ! 0) ?p ?t) n = (NotFound, n)"
       "spawn example_env_7z (SevenZipExtract (seven_zip_paths ! 1) ?p ?t) n = (Exited 0, n)"
       "spawn example_env_7z (SevenZipExtract (seven_zip_paths ! 2) ?p ?t) n
          = (if seven_zip_paths ! 2 = ''7z'' then NotFound else Exited 0, n)" for n
    using z by (simp_all add: example_env_7z_def example_env_def)
  have a: "procs (snd (extract_windows_exe example_env ?p ?t (start example_workspace)))
             = map (\<lambda>z. (SevenZipExtract z ?p ?t, NotFound)) seven_zip_paths
         \<and> fst (extract_windows_exe example_env ?p ?t (start example_workspace))
             = Some (RuntimeError seven_zip_help)"
    using C8_extract_windows_exe [of example_env ?p ?t "start example_workspace"] p0
    unfolding Let_def e1 by (subst (asm) (4) l, subst l) simp
  have b: "map snd (procs (snd (extract_windows_exe example_env_7z ?p ?t
                                 (start example_workspace)))) = [NotFound, Exited 0]
         \<and> fst (extract_windows_exe example_env_7z ?p ?t (start example_workspace)) = None"
    using C8_extract_windows_exe [of example_env_7z ?p ?t "start example_workspace"] p0
    unfolding Let_def e2 by simp
  show ?thesis using a b by simp
qed



text \<open>
  C10. When the path given as first argument is not an existing file, either installer
  exits with status 1, and the file system is the one it started from: no temporary
  directory was created and the destination tree was not touched. No external command was
  started either. This holds whatever follows the path on the command line.
\<close>

theorem C10_missing_installer:
  "(\<not> is_file (fs s) (resolve e a) \<longrightarrow>
      fst (fmod_main e (a0 # a # rest) s) = Exit 1
      \<and> fs (snd (fmod_main e (a0 # a # rest) s)) = fs s
      \<and> procs (snd (fmod_main e (a0 # a # rest) s)) = procs s)
   \<and> (\<not> is_file (fs s) (resolve e a) \<longrightarrow>
      fst (raylib_main e (a0 # a # rest) s) = Exit 1
      \<and> fs (snd (raylib_main e (a0 # a # rest) s)) = fs s
      \<and> procs (snd (raylib_main e (a0 # a # rest) s)) = procs s)"
  unfolding fmod_main_def raylib_main_def
  using main_not_found [of s e a fmod_detect_platform "''temp_fmod_install_''" fmod_extract
      fmod_copy_api_files a0 rest]
    main_not_found [of s e a raylib_detect_platform "''temp_raylib_install_''" raylib_extract
      raylib_copy_api_files a0 rest]
  by blast

text \<open>The witness of C10: a path that names no file, in the concrete environment.\<close>

theorem C10_missing_installer_witness:
  "\<not> is_file (fs (start example_fs)) (resolve example_env ''no-such-file.exe'')
   \<and> fst (fmod_main example_env [''install_fmod_api.py'', ''no-such-file.exe''] (start example_fs)) = Exit 1
   \<and> fs (snd (fmod_main example_env [''install_fmod_api.py'', ''no-such-file.exe''] (start example_fs))) = example_fs
   \<and> fst (raylib_main example_env [''install_raylib.py'', ''no-such-file.exe''] (start example_fs)) = Exit 1
   \<and> fs (snd (raylib_main example_env [''install_raylib.py'', ''no-such-file.exe''] (start example_fs))) = example_fs"
proof -
  have h: "\<not> is_file (fs (start example_fs)) (resolve example_env ''no-such-file.exe'')"
    by code_simp
  have f: "fs (start example_fs) = example_fs" by (simp add: start_def)
  show ?thesis
    using h f
      C10_missing_installer [of "start example_fs" example_env "''no-such-file.exe''"
        "''install_fmod_api.py''" "[]"]
      C10_missing_installer [of "start example_fs" example_env "''no-such-file.exe''"
        "''install_raylib.py''" "[]"]
    by simp
qed

end
